theory Spec2Isabelle
  imports Main "HOL-Library.Word"
begin

unbundle bit_operations_syntax

section \<open>Data model of \<^verbatim>\<open>psutil/arch/windows/process_info.c\<close>\<close>

text \<open>
  The C file talks to Windows through system calls and keeps its results in return codes,
  the Python error indicator and the thread's last-error value. The embedding makes all of
  that explicit: the operating system is a record of answers to the calls the code makes,
  and every C function becomes a function from the state before the call to the returned
  value and the state after it. A result \<open>None\<close> marks an execution that leaves defined C
  behaviour (signed overflow, a read outside a buffer, \<^verbatim>\<open>free\<close> of an indeterminate
  pointer).
\<close>

type_synonym DWORD = "32 word"
type_synonym USHORT = "16 word"
type_synonym WCHAR = "16 word"
type_synonym BYTE = "8 word"
type_synonym HANDLE = nat

definition NULL :: nat where
  "NULL = 0"

text \<open>
  Modelled from the spec: the constants of the Windows SDK headers, which are not among the
  sources: the sentinel exit code that means "still active", the error codes for "access
  denied" and for an id that names no process, the access rights the file asks for, and
  the limits of \<^verbatim>\<open>int\<close> and DWORD, each with the value the SDK gives it.
\<close>

definition STILL_ACTIVE :: DWORD where
  "STILL_ACTIVE = 259"

definition ERROR_ACCESS_DENIED :: DWORD where
  "ERROR_ACCESS_DENIED = 5"

definition ERROR_INVALID_PARAMETER :: DWORD where
  "ERROR_INVALID_PARAMETER = 87"

definition PROCESS_VM_READ :: DWORD where
  "PROCESS_VM_READ = 0x0010"

definition PROCESS_QUERY_INFORMATION :: DWORD where
  "PROCESS_QUERY_INFORMATION = 0x0400"

definition PROCESS_QUERY_LIMITED_INFORMATION :: DWORD where
  "PROCESS_QUERY_LIMITED_INFORMATION = 0x1000"

definition INT_MAX :: nat where
  "INT_MAX = 2147483647"

definition sizeof_DWORD :: nat where
  "sizeof_DWORD = 4"

text \<open>
  The Python exceptions the file raises. \<open>WindowsError_last\<close> is
  \<^verbatim>\<open>PyErr_SetFromWindowsErr(0)\<close>, which takes its code from \<^verbatim>\<open>GetLastError()\<close>;
  \<open>WindowsError c\<close> is \<^verbatim>\<open>PyErr_SetFromWindowsErr(c)\<close> with an explicit code.
\<close>

datatype exception =
    AccessDenied
  | NoSuchProcess
  | AssertionError
  | MemoryError
  | RuntimeError
  | WindowsError_last
  | WindowsError DWORD

datatype event = Opened HANDLE | Closed HANDLE

datatype 'a os_result = OsFail DWORD | OsOk 'a

text \<open>
  The answers of the operating system. \<open>OpenProcess\<close> gives the handle (\<open>NULL\<close> on failure)
  and the last-error code it leaves behind; \<open>EnumProcesses cb\<close> gives the ids it wrote into
  a buffer of \<open>cb\<close> bytes (the byte count it reports is four times their number);
  \<open>malloc_ok n\<close> says whether a request for \<open>n\<close> bytes is granted. \<open>PSUTIL_TESTING\<close> is the
  global flag of \<^verbatim>\<open>_psutil_common.h\<close> and \<open>WIN64\<close> the compile-time macro \<^verbatim>\<open>_WIN64\<close>.
  An answer depends on the arguments of the call only; the buffer size that
  \<open>EnumProcesses\<close> is given differs from one iteration of its loop to the next, so its
  answers can differ between iterations.
\<close>

record os =
  PSUTIL_TESTING :: bool
  WIN64 :: bool
  OpenProcess :: "DWORD \<Rightarrow> DWORD \<Rightarrow> HANDLE \<times> DWORD"
  GetExitCodeProcess :: "HANDLE \<Rightarrow> DWORD os_result"
  EnumProcesses :: "nat \<Rightarrow> DWORD list option"
  malloc_ok :: "nat \<Rightarrow> bool"

text \<open>
  The state a call runs in: the Python error indicator, the thread's last-error value,
  the handle events so far (oldest first), and the \<^verbatim>\<open>static\<close> variables of the file
  (\<open>initialBufferSize\<close>, and whether the two cached \<^verbatim>\<open>NtWow64\<close> entry points are resolved).
\<close>

record state =
  pyerr :: "exception option"
  last_error :: DWORD
  events :: "event list"
  initialBufferSize :: nat
  NtWow64QueryInformationProcess64_resolved :: bool
  NtWow64ReadVirtualMemory64_resolved :: bool

definition size_t_bits :: "os \<Rightarrow> nat" where
  "size_t_bits os = (if WIN64 os then 64 else 32)"

definition PyErr_Set :: "exception \<Rightarrow> state \<Rightarrow> state" where
  "PyErr_Set e s = s\<lparr>pyerr := Some e\<rparr>"

definition SetLastError :: "DWORD \<Rightarrow> state \<Rightarrow> state" where
  "SetLastError c s = s\<lparr>last_error := c\<rparr>"

definition CloseHandle :: "HANDLE \<Rightarrow> state \<Rightarrow> state" where
  "CloseHandle h s = s\<lparr>events := events s @ [Closed h]\<rparr>"

definition do_OpenProcess :: "os \<Rightarrow> DWORD \<Rightarrow> DWORD \<Rightarrow> state \<Rightarrow> HANDLE \<times> state" where
  "do_OpenProcess os dwDesiredAccess pid s =
     (case OpenProcess os dwDesiredAccess pid of (h, err) \<Rightarrow>
        if h = NULL then (NULL, SetLastError err s)
        else (h, s\<lparr>events := events s @ [Opened h]\<rparr>))"

section \<open>Process and PID utilities\<close>

text \<open>
  \<^verbatim>\<open>psutil_get_pids\<close>, the \<^verbatim>\<open>do ... while\<close> loop. \<open>procArraySz\<close> is a C \<^verbatim>\<open>int\<close>:
  adding 1024 beyond \<open>INT_MAX\<close> is undefined. \<open>procArrayByteSz\<close> and \<open>enumReturnSz\<close> are
  DWORDs; the loop condition compares \<open>enumReturnSz\<close> with the product recomputed in
  \<^verbatim>\<open>size_t\<close>. At exit the loop gives \<open>procArraySz\<close>, \<open>enumReturnSz\<close> and the array.
\<close>

function psutil_get_pids_loop ::
  "os \<Rightarrow> nat \<Rightarrow> state \<Rightarrow> ((nat \<times> nat \<times> DWORD list) option \<times> state) option" where
  "psutil_get_pids_loop os procArraySz s =
     (if procArraySz + 1024 > INT_MAX then None
      else if \<not> malloc_ok os (((procArraySz + 1024) * sizeof_DWORD) mod 2 ^ 32)
        then Some (None, PyErr_Set MemoryError s)
      else case EnumProcesses os (((procArraySz + 1024) * sizeof_DWORD) mod 2 ^ 32) of
          None \<Rightarrow> Some (None, PyErr_Set WindowsError_last s)
        | Some procArray \<Rightarrow>
            if (length procArray * sizeof_DWORD) mod 2 ^ 32
                 = ((procArraySz + 1024) * sizeof_DWORD) mod 2 ^ size_t_bits os
            then psutil_get_pids_loop os (procArraySz + 1024) s
            else Some (Some (procArraySz + 1024,
                             (length procArray * sizeof_DWORD) mod 2 ^ 32,
                             procArray), s))"
  by pat_completeness auto
termination
  by (relation "measure (\<lambda>(os, procArraySz, s). 2147483648 - procArraySz)")
     (auto simp: INT_MAX_def)

declare psutil_get_pids_loop.simps [simp del]

definition psutil_get_pids :: "os \<Rightarrow> state \<Rightarrow> ((DWORD list \<times> nat) option \<times> state) option" where
  "psutil_get_pids os s =
     (case psutil_get_pids_loop os 0 s of
        None \<Rightarrow> None
      | Some (None, s1) \<Rightarrow> Some (None, s1)
      | Some (Some (procArraySz, enumReturnSz, procArray), s1) \<Rightarrow>
          Some (Some (procArray, enumReturnSz div sizeof_DWORD), s1))"

text \<open>The \<^verbatim>\<open>for\<close> loop of \<^verbatim>\<open>psutil_pid_in_pids\<close> over the first ids of the array.\<close>

primrec scan_proclist :: "DWORD list \<Rightarrow> DWORD \<Rightarrow> int" where
  "scan_proclist [] pid = 0"
| "scan_proclist (p # ps) pid = (if p = pid then 1 else scan_proclist ps pid)"

definition psutil_pid_in_pids :: "os \<Rightarrow> DWORD \<Rightarrow> state \<Rightarrow> (int \<times> state) option" where
  "psutil_pid_in_pids os pid s =
     (case psutil_get_pids os s of
        None \<Rightarrow> None
      | Some (None, s1) \<Rightarrow> Some (- 1, s1)
      | Some (Some (proclist, numberOfReturnedPIDs), s1) \<Rightarrow>
          Some (scan_proclist (take numberOfReturnedPIDs proclist) pid, s1))"

definition psutil_assert_pid_exists :: "os \<Rightarrow> DWORD \<Rightarrow> state \<Rightarrow> (int \<times> state) option" where
  "psutil_assert_pid_exists os pid s =
     (if PSUTIL_TESTING os then
        (case psutil_pid_in_pids os pid s of
           None \<Rightarrow> None
         | Some (r, s1) \<Rightarrow>
             if r = 0 then Some (0, PyErr_Set AssertionError s1) else Some (1, s1))
      else Some (1, s))"

definition psutil_assert_pid_not_exists :: "os \<Rightarrow> DWORD \<Rightarrow> state \<Rightarrow> (int \<times> state) option" where
  "psutil_assert_pid_not_exists os pid s =
     (if PSUTIL_TESTING os then
        (case psutil_pid_in_pids os pid s of
           None \<Rightarrow> None
         | Some (r, s1) \<Rightarrow>
             if r = 1 then Some (0, PyErr_Set AssertionError s1) else Some (1, s1))
      else Some (1, s))"

text \<open>
  \<^verbatim>\<open>psutil_is_phandle_running\<close>: 1 running, 0 not running, -1 WindowsError,
  -2 AssertionError.
\<close>

definition psutil_is_phandle_running ::
  "os \<Rightarrow> HANDLE \<Rightarrow> DWORD \<Rightarrow> state \<Rightarrow> (int \<times> state) option" where
  "psutil_is_phandle_running os hProcess pid s =
     (if hProcess = NULL then
        (if last_error s = ERROR_INVALID_PARAMETER then
           (case psutil_assert_pid_not_exists os pid s of
              None \<Rightarrow> None
            | Some (ok, s1) \<Rightarrow> if ok = 0 then Some (- 2, s1) else Some (0, s1))
         else Some (- 1, s))
      else
        (case GetExitCodeProcess os hProcess of
           OsOk processExitCode \<Rightarrow>
             if processExitCode = STILL_ACTIVE then
               (case psutil_assert_pid_exists os pid s of
                  None \<Rightarrow> None
                | Some (ok, s1) \<Rightarrow> if ok = 0 then Some (- 2, s1) else Some (1, s1))
             else
               (case psutil_pid_in_pids os pid s of
                  None \<Rightarrow> None
                | Some (r, s1) \<Rightarrow>
                    if r = 1 then Some (1, s1) else Some (0, CloseHandle hProcess s1))
         | OsFail err \<Rightarrow>
             (case psutil_assert_pid_not_exists os pid
                     (CloseHandle hProcess (SetLastError err s)) of
                None \<Rightarrow> None
              | Some (ok, s1) \<Rightarrow> if ok = 0 then Some (- 2, s1) else Some (- 1, s1))))"

definition psutil_check_phandle ::
  "os \<Rightarrow> HANDLE \<Rightarrow> DWORD \<Rightarrow> state \<Rightarrow> (HANDLE \<times> state) option" where
  "psutil_check_phandle os hProcess pid s =
     (case psutil_is_phandle_running os hProcess pid s of
        None \<Rightarrow> None
      | Some (ret, s1) \<Rightarrow>
          if ret = 1 then Some (hProcess, s1)
          else if ret = 0 then Some (NULL, PyErr_Set NoSuchProcess s1)
          else if ret = - 1 then Some (NULL, PyErr_Set WindowsError_last s1)
          else Some (NULL, s1))"

definition psutil_handle_from_pid ::
  "os \<Rightarrow> DWORD \<Rightarrow> DWORD \<Rightarrow> state \<Rightarrow> (HANDLE \<times> state) option" where
  "psutil_handle_from_pid os pid dwDesiredAccess s =
     (if pid = 0 then Some (NULL, PyErr_Set AccessDenied s)
      else case do_OpenProcess os dwDesiredAccess pid s of
             (hProcess, s1) \<Rightarrow> psutil_check_phandle os hProcess pid s1)"

text \<open>\<^verbatim>\<open>psutil_pid_is_running\<close>: 1 the pid exists, 0 it does not, -1 error.\<close>

definition psutil_pid_is_running :: "os \<Rightarrow> DWORD \<Rightarrow> state \<Rightarrow> (int \<times> state) option" where
  "psutil_pid_is_running os pid s =
     (if pid = 0 then Some (1, s)
      else if pid < 0 then Some (0, s)
      else case do_OpenProcess os (PROCESS_QUERY_INFORMATION OR PROCESS_VM_READ) pid s of
        (hProcess, s1) \<Rightarrow>
          if NULL = hProcess then
            (if last_error s1 = ERROR_INVALID_PARAMETER then
               (case psutil_assert_pid_not_exists os pid s1 of
                  None \<Rightarrow> None
                | Some (ok, s2) \<Rightarrow> if ok = 0 then Some (- 1, s2) else Some (0, s2))
             else if last_error s1 = ERROR_ACCESS_DENIED then
               (case psutil_assert_pid_exists os pid s1 of
                  None \<Rightarrow> None
                | Some (ok, s2) \<Rightarrow> if ok = 0 then Some (- 1, s2) else Some (1, s2))
             else Some (- 1, PyErr_Set (WindowsError (last_error s1)) s1))
          else
            (case GetExitCodeProcess os hProcess of
               OsOk exitCode \<Rightarrow>
                 if exitCode = STILL_ACTIVE then
                   (case psutil_assert_pid_exists os pid (CloseHandle hProcess s1) of
                      None \<Rightarrow> None
                    | Some (ok, s2) \<Rightarrow> if ok = 0 then Some (- 1, s2) else Some (1, s2))
                 else psutil_pid_in_pids os pid (CloseHandle hProcess s1)
             | OsFail err \<Rightarrow>
                 if err = ERROR_ACCESS_DENIED then
                   (case psutil_assert_pid_exists os pid
                           (CloseHandle hProcess (SetLastError err s1)) of
                      None \<Rightarrow> None
                    | Some (ok, s2) \<Rightarrow> if ok = 0 then Some (- 1, s2) else Some (1, s2))
                 else Some (- 1, PyErr_Set (WindowsError err)
                                    (CloseHandle hProcess (SetLastError err s1)))))"


section \<open>The cross-bitness remote reader\<close>

datatype psutil_process_data_kind = KIND_CMDLINE | KIND_CWD | KIND_ENVIRON

text \<open>
  The helper structures, with the pointer type as a parameter: \<open>nat\<close> for the inspector's
  own pointers (\<^verbatim>\<open>RTL_USER_PROCESS_PARAMETERS_\<close>, \<^verbatim>\<open>PEB_\<close>), \<open>32 word\<close> for the 32-bit
  layout (\<^verbatim>\<open>RTL_USER_PROCESS_PARAMETERS32\<close>, \<^verbatim>\<open>PEB32\<close>) and \<open>64 word\<close> for the 64-bit one
  (\<^verbatim>\<open>RTL_USER_PROCESS_PARAMETERS64\<close>, \<^verbatim>\<open>PEB64\<close>). Reserved fields are left out.
\<close>

record 'p UNICODE_STRING =
  Length :: USHORT
  MaxLength :: USHORT
  Buffer :: 'p

record 'p RTL_USER_PROCESS_PARAMETERS =
  CurrentDirectoryPath :: "'p UNICODE_STRING"
  DllPath :: "'p UNICODE_STRING"
  ImagePathName :: "'p UNICODE_STRING"
  CommandLine :: "'p UNICODE_STRING"
  env :: 'p

record 'p PEB =
  ProcessParameters :: 'p

text \<open>
  Modelled from the spec: the descriptor of a memory region that \<^verbatim>\<open>VirtualQueryEx\<close> fills
  (a Windows type), with the two fields the file reads; the readable extent runs from an
  address to the end of its region.
\<close>

record MEMORY_BASIC_INFORMATION =
  BaseAddress :: nat
  RegionSize :: nat

text \<open>
  The answers of the system calls of the reader; \<open>None\<close> is a failed call. A read of the
  target's memory is given at the type it is read at (a PEB, the process parameters, or
  raw bytes). \<open>calloc_ok n\<close> says whether \<^verbatim>\<open>calloc\<close> grants \<open>n\<close> bytes.
\<close>

record reader =
  GetProcAddress_NtQueryInformationProcess :: bool
  NtQueryInformationProcess_Wow64Information :: "HANDLE \<Rightarrow> nat option"
  NtQueryInformationProcess_BasicInformation :: "HANDLE \<Rightarrow> nat option"
  NtQueryInformationProcess_CommandLine :: "HANDLE \<Rightarrow> nat \<Rightarrow> WCHAR list option"
  ReadProcessMemory_PEB32 :: "HANDLE \<Rightarrow> nat \<Rightarrow> (32 word) PEB option"
  ReadProcessMemory_Parameters32 ::
    "HANDLE \<Rightarrow> nat \<Rightarrow> (32 word) RTL_USER_PROCESS_PARAMETERS option"
  ReadProcessMemory_PEB :: "HANDLE \<Rightarrow> nat \<Rightarrow> nat PEB option"
  ReadProcessMemory_Parameters :: "HANDLE \<Rightarrow> nat \<Rightarrow> nat RTL_USER_PROCESS_PARAMETERS option"
  ReadProcessMemory :: "HANDLE \<Rightarrow> nat \<Rightarrow> nat \<Rightarrow> BYTE list option"
  IsWow64Process_self :: "bool option"
  IsWow64Process :: "HANDLE \<Rightarrow> bool option"
  GetProcAddressFromLib_NtWow64QueryInformationProcess64 :: bool
  GetProcAddressFromLib_NtWow64ReadVirtualMemory64 :: bool
  NtWow64QueryInformationProcess64 :: "HANDLE \<Rightarrow> 64 word option"
  NtWow64ReadVirtualMemory64_PEB64 :: "HANDLE \<Rightarrow> 64 word \<Rightarrow> (64 word) PEB option"
  NtWow64ReadVirtualMemory64_Parameters64 ::
    "HANDLE \<Rightarrow> 64 word \<Rightarrow> (64 word) RTL_USER_PROCESS_PARAMETERS option"
  NtWow64ReadVirtualMemory64 :: "HANDLE \<Rightarrow> 64 word \<Rightarrow> nat \<Rightarrow> BYTE list option"
  VirtualQueryEx :: "HANDLE \<Rightarrow> nat \<Rightarrow> MEMORY_BASIC_INFORMATION option"
  calloc_ok :: "nat \<Rightarrow> bool"

text \<open>
  \<^verbatim>\<open>psutil_get_process_region_size\<close>: \<open>None\<close> is the return value -1 (WindowsError set).
  The subtraction is carried out in \<^verbatim>\<open>SIZE_T\<close>.
\<close>

definition psutil_get_process_region_size :: "os \<Rightarrow> reader \<Rightarrow> HANDLE \<Rightarrow> nat \<Rightarrow> nat option" where
  "psutil_get_process_region_size os rd hProcess src =
     (case VirtualQueryEx rd hProcess src of
        None \<Rightarrow> None
      | Some info \<Rightarrow>
          Some (nat ((int (RegionSize info) - (int src - int (BaseAddress info)))
                      mod 2 ^ size_t_bits os)))"

text \<open>
  The field a walk has located: \<open>Src\<close> is the variable \<^verbatim>\<open>src\<close>, \<open>Src64\<close> the variable
  \<^verbatim>\<open>src64\<close> of the 32-bit build; the size is \<open>None\<close> while \<^verbatim>\<open>size\<close> is unassigned (the
  \<^verbatim>\<open>KIND_ENVIRON\<close> case of each \<^verbatim>\<open>switch\<close>).
\<close>

datatype source = Src nat | Src64 "64 word"

text \<open>The \<^verbatim>\<open>switch (kind)\<close> over the three layouts.\<close>

definition switch_kind32 ::
  "(32 word) RTL_USER_PROCESS_PARAMETERS \<Rightarrow> psutil_process_data_kind \<Rightarrow> source \<times> nat option" where
  "switch_kind32 procParameters32 kind =
     (case kind of
        KIND_CMDLINE \<Rightarrow> (Src (unat (Buffer (CommandLine procParameters32))),
                          Some (unat (Length (CommandLine procParameters32))))
      | KIND_CWD \<Rightarrow> (Src (unat (Buffer (CurrentDirectoryPath procParameters32))),
                      Some (unat (Length (CurrentDirectoryPath procParameters32))))
      | KIND_ENVIRON \<Rightarrow> (Src (unat (env procParameters32)), None))"

definition switch_kind64 ::
  "(64 word) RTL_USER_PROCESS_PARAMETERS \<Rightarrow> psutil_process_data_kind \<Rightarrow> source \<times> nat option" where
  "switch_kind64 procParameters64 kind =
     (case kind of
        KIND_CMDLINE \<Rightarrow> (Src64 (Buffer (CommandLine procParameters64)),
                          Some (unat (Length (CommandLine procParameters64))))
      | KIND_CWD \<Rightarrow> (Src64 (Buffer (CurrentDirectoryPath procParameters64)),
                      Some (unat (Length (CurrentDirectoryPath procParameters64))))
      | KIND_ENVIRON \<Rightarrow> (Src64 (env procParameters64), None))"

definition switch_kind ::
  "nat RTL_USER_PROCESS_PARAMETERS \<Rightarrow> psutil_process_data_kind \<Rightarrow> source \<times> nat option" where
  "switch_kind procParameters kind =
     (case kind of
        KIND_CMDLINE \<Rightarrow> (Src (Buffer (CommandLine procParameters)),
                          Some (unat (Length (CommandLine procParameters))))
      | KIND_CWD \<Rightarrow> (Src (Buffer (CurrentDirectoryPath procParameters)),
                      Some (unat (Length (CurrentDirectoryPath procParameters))))
      | KIND_ENVIRON \<Rightarrow> (Src (env procParameters), None))"

text \<open>
  The three walks of \<^verbatim>\<open>psutil_get_process_data\<close>. Each gives the exception of the
  \<^verbatim>\<open>goto error\<close> it takes, or the located field.

  Lines 559-593: a 64-bit inspector and a 32-bit target.
\<close>

definition walk_wow64 ::
  "reader \<Rightarrow> HANDLE \<Rightarrow> nat \<Rightarrow> psutil_process_data_kind \<Rightarrow> exception + source \<times> nat option" where
  "walk_wow64 rd hProcess ppeb32 kind =
     (case ReadProcessMemory_PEB32 rd hProcess ppeb32 of
        None \<Rightarrow> Inl WindowsError_last
      | Some peb32 \<Rightarrow>
          (case ReadProcessMemory_Parameters32 rd hProcess (unat (ProcessParameters peb32)) of
             None \<Rightarrow> Inl WindowsError_last
           | Some procParameters32 \<Rightarrow> Inr (switch_kind32 procParameters32 kind)))"

text \<open>
  Lines 602-672: a 32-bit inspector under WoW64 and a 64-bit target. The two entry points
  are looked up once and cached in \<^verbatim>\<open>static\<close> variables.
\<close>

definition walk_narrower ::
  "reader \<Rightarrow> HANDLE \<Rightarrow> psutil_process_data_kind \<Rightarrow> state
     \<Rightarrow> (exception + source \<times> nat option) \<times> state" where
  "walk_narrower rd hProcess kind s =
     (if \<not> NtWow64QueryInformationProcess64_resolved s
         \<and> \<not> GetProcAddressFromLib_NtWow64QueryInformationProcess64 rd
      then (Inl AccessDenied, s)
      else let s1 = s\<lparr>NtWow64QueryInformationProcess64_resolved := True\<rparr> in
        if \<not> NtWow64ReadVirtualMemory64_resolved s1
           \<and> \<not> GetProcAddressFromLib_NtWow64ReadVirtualMemory64 rd
        then (Inl AccessDenied, s1)
        else let s2 = s1\<lparr>NtWow64ReadVirtualMemory64_resolved := True\<rparr> in
          (case NtWow64QueryInformationProcess64 rd hProcess of
             None \<Rightarrow> (Inl WindowsError_last, s2)
           | Some PebBaseAddress \<Rightarrow>
               (case NtWow64ReadVirtualMemory64_PEB64 rd hProcess PebBaseAddress of
                  None \<Rightarrow> (Inl WindowsError_last, s2)
                | Some peb64 \<Rightarrow>
                    (case NtWow64ReadVirtualMemory64_Parameters64 rd hProcess
                            (ProcessParameters peb64) of
                       None \<Rightarrow> (Inl WindowsError_last, s2)
                     | Some procParameters64 \<Rightarrow>
                         (Inr (switch_kind64 procParameters64 kind), s2)))))"

text \<open>Lines 676-723: the target has the bitness of the inspector.\<close>

definition walk_native ::
  "reader \<Rightarrow> HANDLE \<Rightarrow> psutil_process_data_kind \<Rightarrow> exception + source \<times> nat option" where
  "walk_native rd hProcess kind =
     (case NtQueryInformationProcess_BasicInformation rd hProcess of
        None \<Rightarrow> Inl WindowsError_last
      | Some PebBaseAddress \<Rightarrow>
          (case ReadProcessMemory_PEB rd hProcess PebBaseAddress of
             None \<Rightarrow> Inl WindowsError_last
           | Some peb \<Rightarrow>
               (case ReadProcessMemory_Parameters rd hProcess (ProcessParameters peb) of
                  None \<Rightarrow> Inl WindowsError_last
                | Some procParameters \<Rightarrow> Inr (switch_kind procParameters kind))))"

text \<open>
  Lines 547-723: the bitness test that chooses the walk, under \<^verbatim>\<open>#ifdef _WIN64\<close> and
  under \<^verbatim>\<open>#else\<close>.
\<close>

definition locate_field ::
  "os \<Rightarrow> reader \<Rightarrow> HANDLE \<Rightarrow> psutil_process_data_kind \<Rightarrow> state
     \<Rightarrow> (exception + source \<times> nat option) \<times> state" where
  "locate_field os rd hProcess kind s =
     (if WIN64 os then
        (case NtQueryInformationProcess_Wow64Information rd hProcess of
           None \<Rightarrow> (Inl WindowsError_last, s)
         | Some ppeb32 \<Rightarrow>
             if ppeb32 \<noteq> NULL then (walk_wow64 rd hProcess ppeb32 kind, s)
             else (walk_native rd hProcess kind, s))
      else
        (case IsWow64Process_self rd of
           None \<Rightarrow> (Inl WindowsError_last, s)
         | Some weAreWow64 \<Rightarrow>
             (case IsWow64Process rd hProcess of
                None \<Rightarrow> (Inl WindowsError_last, s)
              | Some theyAreWow64 \<Rightarrow>
                  if weAreWow64 \<and> \<not> theyAreWow64 then walk_narrower rd hProcess kind s
                  else (walk_native rd hProcess kind, s))))"


text \<open>
  Lines 725-735: the size of the environment block. In the 32-bit build the test
  \<^verbatim>\<open>weAreWow64 && !theyAreWow64\<close> holds exactly when the walk was the one that sets
  \<^verbatim>\<open>src64\<close>. A size that no \<^verbatim>\<open>switch\<close> case assigned would be read indeterminate.
\<close>

definition field_size ::
  "os \<Rightarrow> reader \<Rightarrow> HANDLE \<Rightarrow> psutil_process_data_kind \<Rightarrow> source \<Rightarrow> nat option
     \<Rightarrow> (exception + nat) option" where
  "field_size os rd hProcess kind source size0 =
     (if kind = KIND_ENVIRON then
        (case source of
           Src64 src64 \<Rightarrow> Some (Inl AccessDenied)
         | Src src \<Rightarrow>
             (case psutil_get_process_region_size os rd hProcess src of
                None \<Rightarrow> Some (Inl WindowsError_last)
              | Some size' \<Rightarrow> Some (Inr size')))
      else map_option Inr size0)"

text \<open>
  Lines 737-766: allocation, copy and return. \<^verbatim>\<open>calloc(size + 2, 1)\<close> adds in \<^verbatim>\<open>SIZE_T\<close>.
  A successful read stores \<open>size\<close> bytes; into a shorter buffer that is a write past its
  end, which has no defined behaviour.
\<close>

definition copy_field ::
  "os \<Rightarrow> reader \<Rightarrow> HANDLE \<Rightarrow> source \<Rightarrow> nat \<Rightarrow> state
     \<Rightarrow> ((BYTE list \<times> nat) option \<times> state) option" where
  "copy_field os rd hProcess source size' s =
     (if \<not> calloc_ok rd ((size' + 2) mod 2 ^ size_t_bits os)
      then Some (None, CloseHandle hProcess (PyErr_Set MemoryError s))
      else
        (case (case source of
                 Src64 src64 \<Rightarrow> NtWow64ReadVirtualMemory64 rd hProcess src64 size'
               | Src src \<Rightarrow> ReadProcessMemory rd hProcess src size') of
           None \<Rightarrow> Some (None, CloseHandle hProcess (PyErr_Set WindowsError_last s))
         | Some data \<Rightarrow>
             if size' > (size' + 2) mod 2 ^ size_t_bits os then None
             else Some (Some (take size' data
                               @ drop (min size' (length data))
                                   (replicate ((size' + 2) mod 2 ^ size_t_bits os) 0),
                              size'),
                        CloseHandle hProcess s)))"

text \<open>
  \<^verbatim>\<open>psutil_get_process_data\<close>: \<open>Some (buffer, size)\<close> is the return value 0 with \<^verbatim>\<open>*pdata\<close>
  and \<^verbatim>\<open>*psize\<close>, \<open>None\<close> the return value -1. The \<^verbatim>\<open>long pid\<close> is taken as the DWORD
  that \<^verbatim>\<open>psutil_handle_from_pid\<close> receives.
\<close>

definition psutil_get_process_data ::
  "os \<Rightarrow> reader \<Rightarrow> DWORD \<Rightarrow> psutil_process_data_kind \<Rightarrow> state
     \<Rightarrow> ((BYTE list \<times> nat) option \<times> state) option" where
  "psutil_get_process_data os rd pid kind s =
     (if \<not> GetProcAddress_NtQueryInformationProcess rd
      then Some (None, PyErr_Set WindowsError_last s)
      else
        (case psutil_handle_from_pid os pid (PROCESS_QUERY_INFORMATION OR PROCESS_VM_READ) s of
           None \<Rightarrow> None
         | Some (hProcess, s1) \<Rightarrow>
             if hProcess = NULL then Some (None, s1)
             else
               (case locate_field os rd hProcess kind s1 of
                  (Inl e, s2) \<Rightarrow> Some (None, CloseHandle hProcess (PyErr_Set e s2))
                | (Inr (source, size0), s2) \<Rightarrow>
                    (case field_size os rd hProcess kind source size0 of
                       None \<Rightarrow> None
                     | Some (Inl e) \<Rightarrow> Some (None, CloseHandle hProcess (PyErr_Set e s2))
                     | Some (Inr size') \<Rightarrow> copy_field os rd hProcess source size' s2))))"

text \<open>
  \<^verbatim>\<open>wcslen\<close> on the returned buffer, read as 16-bit characters: \<open>None\<close> when the scan
  leaves the buffer before it meets a zero character.
\<close>

fun wcslen :: "BYTE list \<Rightarrow> nat option" where
  "wcslen (lo # hi # rest) =
     (if lo = 0 \<and> hi = 0 then Some 0 else map_option Suc (wcslen rest))"
| "wcslen [b] = None"
| "wcslen [] = None"

fun wchars :: "BYTE list \<Rightarrow> WCHAR list" where
  "wchars (lo # hi # rest) = (ucast lo OR push_bit 8 (ucast hi)) # wchars rest"
| "wchars [b] = []"
| "wchars [] = []"

text \<open>
  \<^verbatim>\<open>psutil_get_cwd\<close> and \<^verbatim>\<open>psutil_get_environ\<close>; \<^verbatim>\<open>PyUnicode_FromWideChar\<close> is taken to
  succeed, and the Python string is the list of its characters.
\<close>

definition psutil_get_cwd ::
  "os \<Rightarrow> reader \<Rightarrow> DWORD \<Rightarrow> state \<Rightarrow> (WCHAR list option \<times> state) option" where
  "psutil_get_cwd os rd pid s =
     (case psutil_get_process_data os rd pid KIND_CWD s of
        None \<Rightarrow> None
      | Some (None, s1) \<Rightarrow> Some (None, s1)
      | Some (Some (data, size'), s1) \<Rightarrow>
          (case wcslen data of
             None \<Rightarrow> None
           | Some n \<Rightarrow> Some (Some (take n (wchars data)), s1)))"

definition psutil_get_environ ::
  "os \<Rightarrow> reader \<Rightarrow> DWORD \<Rightarrow> state \<Rightarrow> (WCHAR list option \<times> state) option" where
  "psutil_get_environ os rd pid s =
     (case psutil_get_process_data os rd pid KIND_ENVIRON s of
        None \<Rightarrow> None
      | Some (None, s1) \<Rightarrow> Some (None, s1)
      | Some (Some (data, size'), s1) \<Rightarrow> Some (Some (take (size' div 2) (wchars data)), s1))"

text \<open>
  \<^verbatim>\<open>psutil_get_cmdline_data\<close>. Its local \<^verbatim>\<open>HANDLE hProcess;\<close> has no initialiser:
  \<open>hProcess0\<close> is the indeterminate value it holds until line 804 assigns it. The
  \<^verbatim>\<open>error:\<close> label closes whatever non-\<open>NULL\<close> value the variable holds. The system
  call gives the characters of the command line up to its terminator; with \<open>2 ^ 32 - 1\<close>
  of them or more the DWORD \<^verbatim>\<open>string_size\<close> would wrap and \<^verbatim>\<open>wcscpy_s\<close> would be given
  too small a destination, where the model has no result.
\<close>

definition cmdline_error :: "HANDLE \<Rightarrow> state \<Rightarrow> state" where
  "cmdline_error hProcess s = (if hProcess \<noteq> NULL then CloseHandle hProcess s else s)"

definition psutil_get_cmdline_data ::
  "os \<Rightarrow> reader \<Rightarrow> HANDLE \<Rightarrow> DWORD \<Rightarrow> state \<Rightarrow> ((WCHAR list \<times> nat) option \<times> state) option" where
  "psutil_get_cmdline_data os rd hProcess0 pid s =
     (if \<not> GetProcAddress_NtQueryInformationProcess rd
      then Some (None, cmdline_error hProcess0 (PyErr_Set WindowsError_last s))
      else if \<not> calloc_ok rd 4096
      then Some (None, cmdline_error hProcess0 (PyErr_Set MemoryError s))
      else
        (case psutil_handle_from_pid os pid PROCESS_QUERY_LIMITED_INFORMATION s of
           None \<Rightarrow> None
         | Some (hProcess, s1) \<Rightarrow>
             if hProcess = NULL then Some (None, cmdline_error hProcess s1)
             else
               (case NtQueryInformationProcess_CommandLine rd hProcess 4096 of
                  None \<Rightarrow> Some (None, cmdline_error hProcess (PyErr_Set WindowsError_last s1))
                | Some str \<Rightarrow>
                    if length str + 1 \<ge> 2 ^ 32 then None
                    else if \<not> calloc_ok rd ((length str + 1) * 2)
                    then Some (None, cmdline_error hProcess (PyErr_Set MemoryError s1))
                    else Some (Some (str @ [0], (length str + 1) * 2 mod 2 ^ size_t_bits os),
                               CloseHandle hProcess s1))))"

section \<open>The fallback snapshot\<close>

text \<open>
  \<^verbatim>\<open>psutil_get_proc_info\<close>. The two status constants are the ones the file defines. A
  snapshot is the buffer as \<^verbatim>\<open>NtQuerySystemInformation\<close> filled it: the record stored at
  each byte offset, if one starts there. The system call is given the number of calls made
  before it in this run and the buffer size, and answers with the status, the length it
  writes back through its last argument, and the snapshot.
\<close>

type_synonym NTSTATUS = "32 word"

text \<open>
  Modelled from the spec: one record of the fallback snapshot (its type is declared in
  \<^verbatim>\<open>ntextapi.h\<close>, which is not among the sources): it carries the process id and the
  offset of the next record, an offset of 0 ending the sequence.
\<close>

record SYSTEM_PROCESS_INFORMATION =
  NextEntryOffset :: "32 word"
  UniqueProcessId :: nat

definition STATUS_INFO_LENGTH_MISMATCH :: NTSTATUS where
  "STATUS_INFO_LENGTH_MISMATCH = 0xC0000004"

definition STATUS_BUFFER_TOO_SMALL :: NTSTATUS where
  "STATUS_BUFFER_TOO_SMALL = 0xC0000023"

type_synonym snapshot = "nat \<Rightarrow> SYSTEM_PROCESS_INFORMATION option"

record table_os =
  GetProcAddressFromLib_NtQuerySystemInformation :: bool
  NtQuerySystemInformation :: "nat \<Rightarrow> nat \<Rightarrow> NTSTATUS \<times> nat \<times> snapshot"

text \<open>
  The \<^verbatim>\<open>while (TRUE)\<close> loop: it may run for ever, which is the value \<open>None\<close>. At exit
  it gives the status, the size of the buffer the last call was given, the length written
  back, and the snapshot; an inner \<open>None\<close> is the failed \<^verbatim>\<open>malloc\<close> of a retry.
\<close>

partial_function (option) psutil_get_proc_info_loop ::
  "os \<Rightarrow> table_os \<Rightarrow> nat \<Rightarrow> nat \<Rightarrow> state
     \<Rightarrow> ((NTSTATUS \<times> nat \<times> nat \<times> snapshot) option \<times> state) option" where
  "psutil_get_proc_info_loop os tos calls bufferSize s =
     (case NtQuerySystemInformation tos calls bufferSize of
        (status, ReturnLength, buffer) \<Rightarrow>
          if status = STATUS_BUFFER_TOO_SMALL \<or> status = STATUS_INFO_LENGTH_MISMATCH then
            (if \<not> malloc_ok os ReturnLength then Some (None, PyErr_Set MemoryError s)
             else psutil_get_proc_info_loop os tos (Suc calls) ReturnLength s)
          else Some (Some (status, bufferSize, ReturnLength, buffer), s))"

text \<open>
  The \<^verbatim>\<open>do ... while\<close> scan with \<^verbatim>\<open>PSUTIL_NEXT_PROCESS\<close>, \<open>process\<close> being the offset of
  the current record: \<open>Some (Some (offset, record))\<close> is the match, \<open>Some None\<close> the end of
  the sequence, and \<open>None\<close> a read outside the buffer or where no record starts.
\<close>

function psutil_get_proc_info_scan ::
  "snapshot \<Rightarrow> nat \<Rightarrow> nat \<Rightarrow> nat \<Rightarrow> (nat \<times> SYSTEM_PROCESS_INFORMATION) option option" where
  "psutil_get_proc_info_scan buffer allocated process pid =
     (if allocated \<le> process then None
      else case buffer process of
          None \<Rightarrow> None
        | Some entry \<Rightarrow>
            if UniqueProcessId entry = pid then Some (Some (process, entry))
            else if NextEntryOffset entry \<noteq> 0
              then psutil_get_proc_info_scan buffer allocated (process + unat (NextEntryOffset entry)) pid
              else Some None)"
  by pat_completeness auto
termination
proof (relation "measure (\<lambda>(buffer, allocated, process, pid). allocated - process)", goal_cases)
  case 1
  show ?case by simp
next
  case (2 buffer allocated process pid entry)
  have "0 < unat (NextEntryOffset entry)" using 2(4) by (simp add: unat_gt_0)
  then show ?case using 2(1) by simp
qed


declare psutil_get_proc_info_scan.simps [simp del]

text \<open>Line 1013: the cached initial size.\<close>

definition update_hint :: "nat \<Rightarrow> state \<Rightarrow> state" where
  "update_hint bufferSize s =
     (if bufferSize \<le> 0x20000 then s\<lparr>initialBufferSize := bufferSize\<rparr> else s)"

text \<open>
  \<open>Some (process, buffer)\<close> is the return value 1 with \<^verbatim>\<open>*retProcess\<close> and
  \<^verbatim>\<open>*retBuffer\<close>, \<open>None\<close> the return value 0. \<open>buffer0\<close> is the indeterminate value of the
  local \<^verbatim>\<open>buffer\<close> that \<^verbatim>\<open>free\<close> receives when the first \<^verbatim>\<open>goto error\<close> is taken.
\<close>

definition psutil_get_proc_info ::
  "os \<Rightarrow> table_os \<Rightarrow> nat \<Rightarrow> DWORD \<Rightarrow> state
     \<Rightarrow> (((nat \<times> SYSTEM_PROCESS_INFORMATION) \<times> snapshot) option \<times> state) option" where
  "psutil_get_proc_info os tos buffer0 pid s =
     (if \<not> GetProcAddressFromLib_NtQuerySystemInformation tos then
        (if buffer0 \<noteq> NULL then None else Some (None, PyErr_Set WindowsError_last s))
      else if \<not> malloc_ok os (initialBufferSize s) then Some (None, PyErr_Set MemoryError s)
      else
        (case psutil_get_proc_info_loop os tos 0 (initialBufferSize s) s of
           None \<Rightarrow> None
         | Some (None, s1) \<Rightarrow> Some (None, s1)
         | Some (Some (status, allocated, bufferSize, buffer), s1) \<Rightarrow>
             if status \<noteq> 0 then Some (None, PyErr_Set RuntimeError s1)
             else
               (case psutil_get_proc_info_scan buffer allocated 0 (unat pid) of
                  None \<Rightarrow> None
                | Some (Some process) \<Rightarrow>
                    Some (Some (process, buffer), update_hint bufferSize s1)
                | Some None \<Rightarrow>
                    Some (None, PyErr_Set NoSuchProcess (update_hint bufferSize s1)))))"

text \<open>
  The protocol in the words of the specification: the two codes that mean "buffer too
  small", the size of the buffer at the \<open>k\<close>-th call when every retry takes the size the
  system reported, and a buffer that holds a linked sequence of records, each at its
  offset, ended by a next-record offset of 0.
\<close>

definition too_small :: "NTSTATUS \<Rightarrow> bool" where
  "too_small status \<longleftrightarrow>
     status = STATUS_BUFFER_TOO_SMALL \<or> status = STATUS_INFO_LENGTH_MISMATCH"

primrec retry_size :: "table_os \<Rightarrow> nat \<Rightarrow> nat \<Rightarrow> nat" where
  "retry_size tos initial 0 = initial"
| "retry_size tos initial (Suc k) =
     fst (snd (NtQuerySystemInformation tos k (retry_size tos initial k)))"

fun linked_records ::
  "snapshot \<Rightarrow> nat \<Rightarrow> nat \<Rightarrow> (nat \<times> SYSTEM_PROCESS_INFORMATION) list \<Rightarrow> bool" where
  "linked_records buffer allocated process [] = False"
| "linked_records buffer allocated process ((at, entry) # rest) =
     (at = process \<and> process < allocated \<and> buffer process = Some entry \<and>
      (if NextEntryOffset entry = 0 then rest = []
       else linked_records buffer allocated (process + unat (NextEntryOffset entry)) rest))"

section \<open>Example worlds\<close>

text \<open>
  A small world for concrete runs: process 8 can be opened (handle 7) and its exit-code
  query answers \<open>x\<close>; every other id fails to open with \<open>err\<close>; the process table is
  \<open>table\<close> and every allocation is granted.
\<close>

definition world :: "bool \<Rightarrow> DWORD os_result \<Rightarrow> DWORD \<Rightarrow> DWORD list \<Rightarrow> os" where
  "world testing x err table =
     \<lparr>PSUTIL_TESTING = testing, WIN64 = True,
      OpenProcess = (\<lambda>access pid. if pid = 8 then (7, 0) else (NULL, err)),
      GetExitCodeProcess = (\<lambda>h. x),
      EnumProcesses = (\<lambda>cb. Some (take (cb div 4) table)),
      malloc_ok = (\<lambda>n. True)\<rparr>"

text \<open>
  The same world seen by a 32-bit build of the file.
\<close>

definition world32 :: "bool \<Rightarrow> DWORD os_result \<Rightarrow> DWORD \<Rightarrow> DWORD list \<Rightarrow> os" where
  "world32 testing x err table = (world testing x err table)\<lparr>WIN64 := False\<rparr>"

text \<open>
  A target whose control block can be read: the command line is \<open>cmdlen\<close> bytes at
  address \<open>0x30000\<close>, the current directory \<open>cwdlen\<close> bytes at \<open>0x31000\<close>, the environment
  block starts at \<open>0x40000\<close> in a region described by \<open>info\<close>; every byte of the target
  reads as \<open>0x41\<close>. \<open>self\<close> and \<open>they\<close> are the answers of \<^verbatim>\<open>IsWow64Process\<close>, \<open>q64\<close> the
  answer of \<^verbatim>\<open>NtWow64QueryInformationProcess64\<close>, \<open>alloc\<close> the allocator.
\<close>

definition parameters :: "'p \<Rightarrow> 'p \<Rightarrow> 'p \<Rightarrow> USHORT \<Rightarrow> USHORT \<Rightarrow> 'p RTL_USER_PROCESS_PARAMETERS" where
  "parameters cmd cwd e cmdlen cwdlen =
     \<lparr>CurrentDirectoryPath = \<lparr>Length = cwdlen, MaxLength = cwdlen, Buffer = cwd\<rparr>,
      DllPath = \<lparr>Length = 0, MaxLength = 0, Buffer = cwd\<rparr>,
      ImagePathName = \<lparr>Length = 0, MaxLength = 0, Buffer = cmd\<rparr>,
      CommandLine = \<lparr>Length = cmdlen, MaxLength = cmdlen, Buffer = cmd\<rparr>,
      env = e\<rparr>"

definition target ::
  "bool \<Rightarrow> bool \<Rightarrow> 64 word option \<Rightarrow> USHORT \<Rightarrow> USHORT \<Rightarrow> MEMORY_BASIC_INFORMATION
     \<Rightarrow> (nat \<Rightarrow> bool) \<Rightarrow> reader" where
  "target self they q64 cmdlen cwdlen info alloc =
     \<lparr>GetProcAddress_NtQueryInformationProcess = True,
      NtQueryInformationProcess_Wow64Information = (\<lambda>h. Some (if they then 0x7000 else NULL)),
      NtQueryInformationProcess_BasicInformation = (\<lambda>h. Some 0x7000),
      NtQueryInformationProcess_CommandLine = (\<lambda>h n. Some [0x61, 0x62]),
      ReadProcessMemory_PEB32 = (\<lambda>h a. Some \<lparr>ProcessParameters = 0x20000\<rparr>),
      ReadProcessMemory_Parameters32 =
        (\<lambda>h a. Some (parameters 0x30000 0x31000 0x40000 cmdlen cwdlen)),
      ReadProcessMemory_PEB = (\<lambda>h a. Some \<lparr>ProcessParameters = 0x20000\<rparr>),
      ReadProcessMemory_Parameters =
        (\<lambda>h a. Some (parameters 0x30000 0x31000 0x40000 cmdlen cwdlen)),
      ReadProcessMemory = (\<lambda>h a n. Some (replicate n 0x41)),
      IsWow64Process_self = Some self,
      IsWow64Process = (\<lambda>h. Some they),
      GetProcAddressFromLib_NtWow64QueryInformationProcess64 = True,
      GetProcAddressFromLib_NtWow64ReadVirtualMemory64 = True,
      NtWow64QueryInformationProcess64 = (\<lambda>h. q64),
      NtWow64ReadVirtualMemory64_PEB64 = (\<lambda>h a. Some \<lparr>ProcessParameters = 0x20000\<rparr>),
      NtWow64ReadVirtualMemory64_Parameters64 =
        (\<lambda>h a. Some (parameters 0x30000 0x31000 0x40000 cmdlen cwdlen)),
      NtWow64ReadVirtualMemory64 = (\<lambda>h a n. Some (replicate n 0x41)),
      VirtualQueryEx = (\<lambda>h a. Some info),
      calloc_ok = alloc\<rparr>"

text \<open>
  A system whose snapshot needs \<open>0x5000\<close> bytes and lists the processes 0, 4 and 8.
\<close>

definition snapshot3 :: snapshot where
  "snapshot3 =
     [0 \<mapsto> \<lparr>NextEntryOffset = 0x100, UniqueProcessId = 0\<rparr>,
      0x100 \<mapsto> \<lparr>NextEntryOffset = 0x120, UniqueProcessId = 4\<rparr>,
      0x220 \<mapsto> \<lparr>NextEntryOffset = 0, UniqueProcessId = 8\<rparr>]"

definition table_world :: table_os where
  "table_world =
     \<lparr>GetProcAddressFromLib_NtQuerySystemInformation = True,
      NtQuerySystemInformation =
        (\<lambda>calls bufferSize.
           if bufferSize < 0x5000 then (STATUS_INFO_LENGTH_MISMATCH, 0x5000, Map.empty)
           else (0, 0x4800, snapshot3))\<rparr>"

definition s_init :: state where
  "s_init = \<lparr>pyerr = None, last_error = 0, events = [], initialBufferSize = 0x4000,
             NtWow64QueryInformationProcess64_resolved = False,
             NtWow64ReadVirtualMemory64_resolved = False\<rparr>"

section \<open>The table-membership probe\<close>

lemma scan_proclist_iff: "scan_proclist ps pid = 1 \<longleftrightarrow> pid \<in> set ps"
  by (induction ps) auto

lemma scan_proclist_cases: "scan_proclist ps pid = (if pid \<in> set ps then 1 else 0)"
  by (induction ps) auto

text \<open>A table of fewer than 1024 ids is returned by the first iteration of the loop.\<close>

lemma get_pids_first_iteration:
  assumes "malloc_ok os 4096" and "EnumProcesses os 4096 = Some arr" and "length arr < 1024"
  shows "psutil_get_pids os s = Some (Some (arr, length arr), s)"
proof -
  have a: "length arr * 4 mod 2 ^ 32 = length arr * 4" using assms(3) by simp
  have b: "(4096::nat) mod 2 ^ size_t_bits os = 4096" by (simp add: size_t_bits_def)
  have "psutil_get_pids_loop os 0 s = Some (Some (1024, length arr * 4, arr), s)"
    using assms a b
    by (subst psutil_get_pids_loop.simps) (simp add: INT_MAX_def sizeof_DWORD_def)
  then show ?thesis by (simp add: psutil_get_pids_def sizeof_DWORD_def)
qed

lemma pid_in_pids_world:
  assumes "length table < 1024"
  shows "psutil_pid_in_pids (world testing x err table) pid s = Some (scan_proclist table pid, s)"
proof -
  have "psutil_get_pids (world testing x err table) s = Some (Some (table, length table), s)"
    using assms by (intro get_pids_first_iteration) (simp_all add: world_def)
  then show ?thesis by (simp add: psutil_pid_in_pids_def)
qed

section \<open>Liveness of a pid\<close>

text \<open>
  C5. Pid 0 is never reported as not found: for every access-rights set
  \<^verbatim>\<open>psutil_handle_from_pid(0, access)\<close> returns \<open>NULL\<close> with AccessDenied set, without
  touching any handle, and \<^verbatim>\<open>psutil_pid_is_running(0)\<close> returns 1 (running) and leaves the
  state as it was.
\<close>

theorem pid_zero_is_never_not_found:
  "psutil_handle_from_pid os 0 dwDesiredAccess s = Some (NULL, s\<lparr>pyerr := Some AccessDenied\<rparr>)
   \<and> psutil_pid_is_running os 0 s = Some (1, s)"
  by (simp add: psutil_handle_from_pid_def psutil_pid_is_running_def PyErr_Set_def)

text \<open>
  C1 as stated fails. Process 8 is opened, its exit-code query succeeds with 0, which is not
  \<open>STILL_ACTIVE\<close>, and the process table still lists 8: \<^verbatim>\<open>psutil_pid_is_running\<close> answers 1
  (running), not 0.
\<close>

theorem exit_code_other_than_sentinel_counterexample:
  "GetExitCodeProcess (world False (OsOk 0) 87 [4, 8]) 7 = OsOk 0
   \<and> (0 :: DWORD) \<noteq> STILL_ACTIVE
   \<and> psutil_pid_is_running (world False (OsOk 0) 87 [4, 8]) 8 s_init
       = Some (1, s_init\<lparr>events := [Opened 7, Closed 7]\<rparr>)"
proof -
  have "psutil_pid_in_pids (world False (OsOk 0) 87 [4, 8]) 8
          (s_init\<lparr>events := [Opened 7, Closed 7]\<rparr>)
        = Some (1, s_init\<lparr>events := [Opened 7, Closed 7]\<rparr>)"
    by (simp add: pid_in_pids_world)
  moreover have "psutil_pid_is_running (world False (OsOk 0) 87 [4, 8]) 8 s_init
     = psutil_pid_in_pids (world False (OsOk 0) 87 [4, 8]) 8
         (s_init\<lparr>events := [Opened 7, Closed 7]\<rparr>)"
    by (simp add: psutil_pid_is_running_def do_OpenProcess_def world_def NULL_def
        STILL_ACTIVE_def CloseHandle_def s_init_def)
  ultimately show ?thesis by (simp add: world_def STILL_ACTIVE_def)
qed

text \<open>
  C1, amended. When \<^verbatim>\<open>psutil_pid_is_running\<close> has opened the process and the exit-code
  query succeeds, the handle is closed and then: for the sentinel \<open>STILL_ACTIVE\<close> the answer
  is 1 (running) in normal operation; under \<open>PSUTIL_TESTING\<close> the table-membership probe is
  consulted, the answer is 1 when it lists the pid and -1 with AssertionError when it does
  not. For every other exit code the answer is the one the table-membership probe gives
  (1 when the pid is listed, 0 when it is not, -1 when the enumeration fails).
\<close>

theorem pid_is_running_exit_code_probe:
  assumes "pid \<noteq> 0"
    and "OpenProcess os (PROCESS_QUERY_INFORMATION OR PROCESS_VM_READ) pid = (hProcess, e)"
    and "hProcess \<noteq> NULL"
    and "GetExitCodeProcess os hProcess = OsOk exitCode"
    and "s1 = CloseHandle hProcess (s\<lparr>events := events s @ [Opened hProcess]\<rparr>)"
  shows "(exitCode = STILL_ACTIVE \<and> \<not> PSUTIL_TESTING os
            \<longrightarrow> psutil_pid_is_running os pid s = Some (1, s1))
       \<and> (exitCode = STILL_ACTIVE \<and> PSUTIL_TESTING os
             \<and> psutil_pid_in_pids os pid s1 = Some (1, s2)
            \<longrightarrow> psutil_pid_is_running os pid s = Some (1, s2))
       \<and> (exitCode = STILL_ACTIVE \<and> PSUTIL_TESTING os
             \<and> psutil_pid_in_pids os pid s1 = Some (0, s2)
            \<longrightarrow> psutil_pid_is_running os pid s = Some (- 1, PyErr_Set AssertionError s2))
       \<and> (exitCode \<noteq> STILL_ACTIVE
            \<longrightarrow> psutil_pid_is_running os pid s = psutil_pid_in_pids os pid s1)"
  using assms
  by (simp add: psutil_pid_is_running_def do_OpenProcess_def psutil_assert_pid_exists_def)

theorem pid_is_running_exit_code_probe_witness:
  "(8 :: DWORD) \<noteq> 0
   \<and> OpenProcess (world True (OsOk STILL_ACTIVE) 87 [4])
        (PROCESS_QUERY_INFORMATION OR PROCESS_VM_READ) 8 = (7, 0)
   \<and> 7 \<noteq> NULL
   \<and> GetExitCodeProcess (world True (OsOk STILL_ACTIVE) 87 [4]) 7 = OsOk STILL_ACTIVE
   \<and> PSUTIL_TESTING (world True (OsOk STILL_ACTIVE) 87 [4])
   \<and> psutil_pid_in_pids (world True (OsOk STILL_ACTIVE) 87 [4]) 8
        (CloseHandle 7 (s_init\<lparr>events := events s_init @ [Opened 7]\<rparr>))
       = Some (0, CloseHandle 7 (s_init\<lparr>events := events s_init @ [Opened 7]\<rparr>))
   \<and> psutil_pid_is_running (world True (OsOk STILL_ACTIVE) 87 [4]) 8 s_init
       = Some (- 1, PyErr_Set AssertionError
                     (CloseHandle 7 (s_init\<lparr>events := events s_init @ [Opened 7]\<rparr>)))"
proof -
  let ?w = "world True (OsOk STILL_ACTIVE) 87 [4]"
  let ?s1 = "CloseHandle 7 (s_init\<lparr>events := events s_init @ [Opened 7]\<rparr>)"
  have a: "(8 :: DWORD) \<noteq> 0" by simp
  have b: "OpenProcess ?w (PROCESS_QUERY_INFORMATION OR PROCESS_VM_READ) 8 = (7, 0)"
    by (simp add: world_def)
  have c: "7 \<noteq> NULL" by (simp add: NULL_def)
  have d: "GetExitCodeProcess ?w 7 = OsOk STILL_ACTIVE" by (simp add: world_def)
  have e: "PSUTIL_TESTING ?w" by (simp add: world_def)
  have f: "psutil_pid_in_pids ?w 8 ?s1 = Some (0, ?s1)"
    by (simp add: pid_in_pids_world)
  show ?thesis
    using pid_is_running_exit_code_probe [OF a b c d refl, of s_init ?s1] a b c d e f
    by simp
qed

text \<open>
  C8 as stated fails. In normal operation (\<open>PSUTIL_TESTING\<close> off) opening pid 12 fails with
  \<open>ERROR_INVALID_PARAMETER\<close>; the table-membership probe would list 12, yet
  \<^verbatim>\<open>psutil_pid_is_running\<close> answers 0 without consulting it and without escalating.
\<close>

theorem not_found_without_probe_counterexample:
  "OpenProcess (world False (OsOk 0) ERROR_INVALID_PARAMETER [4, 8, 12])
       (PROCESS_QUERY_INFORMATION OR PROCESS_VM_READ) 12 = (NULL, ERROR_INVALID_PARAMETER)
   \<and> psutil_pid_in_pids (world False (OsOk 0) ERROR_INVALID_PARAMETER [4, 8, 12]) 12 s_init
       = Some (1, s_init)
   \<and> psutil_pid_is_running (world False (OsOk 0) ERROR_INVALID_PARAMETER [4, 8, 12]) 12 s_init
       = Some (0, s_init\<lparr>last_error := ERROR_INVALID_PARAMETER\<rparr>)"
  by (simp add: pid_in_pids_world)
     (simp add: world_def psutil_pid_is_running_def do_OpenProcess_def NULL_def
        SetLastError_def psutil_assert_pid_not_exists_def)

text \<open>
  C8, amended. When opening the process fails with \<open>ERROR_INVALID_PARAMETER\<close>: in normal
  operation both \<^verbatim>\<open>psutil_pid_is_running\<close> and \<^verbatim>\<open>psutil_is_phandle_running\<close> answer 0
  (not found) at once, with no probe. Under \<open>PSUTIL_TESTING\<close> the table-membership probe is
  run first: when it does not list the pid the answer is 0, and when it lists the pid the
  call escalates with AssertionError (-1 from \<^verbatim>\<open>psutil_pid_is_running\<close>, -2 from
  \<^verbatim>\<open>psutil_is_phandle_running\<close>).
\<close>

theorem not_found_confirmed_under_testing:
  assumes "pid \<noteq> 0"
    and "OpenProcess os (PROCESS_QUERY_INFORMATION OR PROCESS_VM_READ) pid
           = (NULL, ERROR_INVALID_PARAMETER)"
    and "s1 = SetLastError ERROR_INVALID_PARAMETER s"
  shows "(\<not> PSUTIL_TESTING os \<longrightarrow> psutil_pid_is_running os pid s = Some (0, s1))
       \<and> (PSUTIL_TESTING os \<and> psutil_pid_in_pids os pid s1 = Some (0, s2)
            \<longrightarrow> psutil_pid_is_running os pid s = Some (0, s2))
       \<and> (PSUTIL_TESTING os \<and> psutil_pid_in_pids os pid s1 = Some (1, s2)
            \<longrightarrow> psutil_pid_is_running os pid s = Some (- 1, PyErr_Set AssertionError s2))
       \<and> (\<not> PSUTIL_TESTING os \<longrightarrow> psutil_is_phandle_running os NULL pid s1 = Some (0, s1))
       \<and> (PSUTIL_TESTING os \<and> psutil_pid_in_pids os pid s1 = Some (0, s2)
            \<longrightarrow> psutil_is_phandle_running os NULL pid s1 = Some (0, s2))
       \<and> (PSUTIL_TESTING os \<and> psutil_pid_in_pids os pid s1 = Some (1, s2)
            \<longrightarrow> psutil_is_phandle_running os NULL pid s1
                  = Some (- 2, PyErr_Set AssertionError s2))"
  using assms
  by (simp add: psutil_pid_is_running_def psutil_is_phandle_running_def do_OpenProcess_def
      psutil_assert_pid_not_exists_def SetLastError_def)

theorem not_found_confirmed_under_testing_witness:
  "(12 :: DWORD) \<noteq> 0
   \<and> OpenProcess (world True (OsOk 0) ERROR_INVALID_PARAMETER [4, 8, 12])
        (PROCESS_QUERY_INFORMATION OR PROCESS_VM_READ) 12 = (NULL, ERROR_INVALID_PARAMETER)
   \<and> PSUTIL_TESTING (world True (OsOk 0) ERROR_INVALID_PARAMETER [4, 8, 12])
   \<and> psutil_pid_in_pids (world True (OsOk 0) ERROR_INVALID_PARAMETER [4, 8, 12]) 12
        (SetLastError ERROR_INVALID_PARAMETER s_init)
       = Some (1, SetLastError ERROR_INVALID_PARAMETER s_init)
   \<and> psutil_pid_is_running (world True (OsOk 0) ERROR_INVALID_PARAMETER [4, 8, 12]) 12 s_init
       = Some (- 1, PyErr_Set AssertionError (SetLastError ERROR_INVALID_PARAMETER s_init))
   \<and> psutil_is_phandle_running (world True (OsOk 0) ERROR_INVALID_PARAMETER [4, 8, 12]) NULL 12
        (SetLastError ERROR_INVALID_PARAMETER s_init)
       = Some (- 2, PyErr_Set AssertionError (SetLastError ERROR_INVALID_PARAMETER s_init))"
proof -
  let ?w = "world True (OsOk 0) ERROR_INVALID_PARAMETER [4, 8, 12]"
  have a: "(12 :: DWORD) \<noteq> 0" by simp
  have b: "OpenProcess ?w (PROCESS_QUERY_INFORMATION OR PROCESS_VM_READ) 12
            = (NULL, ERROR_INVALID_PARAMETER)"
    by (simp add: world_def)
  have c: "PSUTIL_TESTING ?w" by (simp add: world_def)
  have d: "psutil_pid_in_pids ?w 12 (SetLastError ERROR_INVALID_PARAMETER s_init)
            = Some (1, SetLastError ERROR_INVALID_PARAMETER s_init)"
    by (simp add: pid_in_pids_world)
  show ?thesis
    using not_found_confirmed_under_testing [OF a b refl,
        of s_init "SetLastError ERROR_INVALID_PARAMETER s_init"] a b c d
    by simp
qed

section \<open>Handles\<close>

text \<open>
  C4 at its failing input. Under \<open>PSUTIL_TESTING\<close>, process 8 is opened (handle 7), its exit
  code is \<open>STILL_ACTIVE\<close> and the process table does not list it: the assertion of
  \<^verbatim>\<open>psutil_is_phandle_running\<close> fails and \<^verbatim>\<open>psutil_handle_from_pid\<close> returns \<open>NULL\<close> with
  AssertionError set, while handle 7 has been opened and never closed; the caller
  \<^verbatim>\<open>psutil_get_process_data\<close> sees \<open>NULL\<close> and returns -1 without closing it either.
\<close>

theorem handle_leak_on_failed_assertion:
  "psutil_handle_from_pid (world True (OsOk STILL_ACTIVE) ERROR_INVALID_PARAMETER [4]) 8
       (PROCESS_QUERY_INFORMATION OR PROCESS_VM_READ) s_init
     = Some (NULL, s_init\<lparr>pyerr := Some AssertionError, events := [Opened 7]\<rparr>)
   \<and> psutil_get_process_data (world True (OsOk STILL_ACTIVE) ERROR_INVALID_PARAMETER [4])
       (target False False None 6 4 \<lparr>BaseAddress = 0x40000, RegionSize = 0x1000\<rparr> (\<lambda>n. True))
       8 KIND_CWD s_init
     = Some (None, s_init\<lparr>pyerr := Some AssertionError, events := [Opened 7]\<rparr>)"
proof -
  let ?w = "world True (OsOk STILL_ACTIVE) ERROR_INVALID_PARAMETER [4]"
  let ?rd = "target False False None 6 4 \<lparr>BaseAddress = 0x40000, RegionSize = 0x1000\<rparr>
               (\<lambda>n. True)"
  let ?acc = "PROCESS_QUERY_INFORMATION OR PROCESS_VM_READ"
  have "psutil_pid_in_pids ?w 8 (s_init\<lparr>events := [Opened 7]\<rparr>)
          = Some (0, s_init\<lparr>events := [Opened 7]\<rparr>)"
    by (simp add: pid_in_pids_world)
  then have "psutil_assert_pid_exists ?w 8 (s_init\<lparr>events := [Opened 7]\<rparr>)
          = Some (0, s_init\<lparr>pyerr := Some AssertionError, events := [Opened 7]\<rparr>)"
    by (simp add: psutil_assert_pid_exists_def world_def PyErr_Set_def s_init_def)
  moreover have "do_OpenProcess ?w ?acc 8 s_init = (7, s_init\<lparr>events := [Opened 7]\<rparr>)"
    by (simp add: do_OpenProcess_def world_def NULL_def s_init_def)
  moreover have "GetExitCodeProcess ?w 7 = OsOk STILL_ACTIVE"
    by (simp add: world_def)
  ultimately have h: "psutil_handle_from_pid ?w 8 ?acc s_init
      = Some (NULL, s_init\<lparr>pyerr := Some AssertionError, events := [Opened 7]\<rparr>)"
    by (simp add: psutil_handle_from_pid_def psutil_check_phandle_def
        psutil_is_phandle_running_def NULL_def)
  have g: "GetProcAddress_NtQueryInformationProcess ?rd" by (simp add: target_def)
  have "psutil_get_process_data ?w ?rd 8 KIND_CWD s_init
      = Some (None, s_init\<lparr>pyerr := Some AssertionError, events := [Opened 7]\<rparr>)"
    using g h by (simp add: psutil_get_process_data_def)
  with h show ?thesis by simp
qed

section \<open>Fast enumeration\<close>

text \<open>One iteration of the loop while the byte size of the array fits a DWORD.\<close>

lemma get_pids_loop_step:
  assumes "procArraySz + 1024 < 2 ^ 30"
  shows "psutil_get_pids_loop os procArraySz s =
     (if \<not> malloc_ok os ((procArraySz + 1024) * 4) then Some (None, PyErr_Set MemoryError s)
      else case EnumProcesses os ((procArraySz + 1024) * 4) of
          None \<Rightarrow> Some (None, PyErr_Set WindowsError_last s)
        | Some procArray \<Rightarrow>
            if (length procArray * 4) mod 2 ^ 32 = (procArraySz + 1024) * 4
            then psutil_get_pids_loop os (procArraySz + 1024) s
            else Some (Some (procArraySz + 1024, (length procArray * 4) mod 2 ^ 32,
                             procArray), s))"
proof -
  have b: "(procArraySz + 1024) * 4 < (2::nat) ^ 32" using assms by simp
  have c: "(procArraySz + 1024) * 4 mod (2::nat) ^ 32 = (procArraySz + 1024) * 4"
    using b by simp
  have d: "(procArraySz + 1024) * 4 mod (2::nat) ^ size_t_bits os = (procArraySz + 1024) * 4"
  proof (cases "WIN64 os")
    case True
    have "(procArraySz + 1024) * 4 < (2::nat) ^ 64" using assms by simp
    then show ?thesis using True by (simp add: size_t_bits_def)
  next
    case False
    then show ?thesis using c by (simp add: size_t_bits_def)
  qed
  have e: "(INT_MAX < procArraySz + 1024) = False" using assms by (simp add: INT_MAX_def)
  show ?thesis
    by (subst psutil_get_pids_loop.simps) (simp only: e if_False sizeof_DWORD_def c d)
qed

text \<open>
  From here on the operating system is assumed to keep the contract of \<^verbatim>\<open>EnumProcesses\<close>:
  it never writes more bytes than the buffer holds, and the process table has fewer than
  \<open>2 ^ 30 - 1024\<close> entries (ids are DWORDs and multiples of four), so that the byte counts of
  the loop stay below \<open>2 ^ 32\<close>.
\<close>

lemma get_pids_loop_characterised:
  assumes contract: "\<And>cb arr. EnumProcesses os cb = Some arr
                       \<Longrightarrow> length arr * 4 \<le> cb \<and> length arr < 2 ^ 30 - 1024"
  shows "procArraySz = 1024 * i \<Longrightarrow> i \<le> 1048574 \<Longrightarrow>
         psutil_get_pids_loop os procArraySz s = Some (Some (cap, ret, arr), s') \<Longrightarrow>
         (\<exists>k>i. cap = 1024 * k \<and> k \<le> 1048575
            \<and> (\<forall>j. i < j \<and> j < k \<longrightarrow> malloc_ok os (4096 * j)
                   \<and> (\<exists>a. EnumProcesses os (4096 * j) = Some a \<and> length a * 4 = 4096 * j))
            \<and> malloc_ok os (4096 * k) \<and> EnumProcesses os (4096 * k) = Some arr
            \<and> ret = length arr * 4 \<and> ret < 4096 * k \<and> s' = s)"
  using contract
proof (induction os procArraySz s arbitrary: i rule: psutil_get_pids_loop.induct)
  case (1 os procArraySz s)
  have eq: "procArraySz = 1024 * i" and bound: "i \<le> 1048574"
    and ret: "psutil_get_pids_loop os procArraySz s = Some (Some (cap, ret, arr), s')"
    using "1.prems" by blast+
  have contract: "length arr * 4 \<le> cb \<and> length arr < 2 ^ 30 - 1024"
    if "EnumProcesses os cb = Some arr" for cb arr
    using "1.prems" that by blast
  define n where "n = procArraySz + 1024"
  define c where "c = n * 4"
  have small: "procArraySz + 1024 < 2 ^ 30" using eq bound by simp
  have n: "n = 1024 * (i + 1)" using eq by (simp add: n_def)
  have c: "c = 4096 * (i + 1)" using n by (simp add: c_def)
  have c32: "c < 2 ^ 32" using small by (simp add: c_def n_def)
  note step = get_pids_loop_step [OF small, of os s, folded n_def, folded c_def]
  have m: "malloc_ok os c"
  proof (rule ccontr)
    assume "\<not> malloc_ok os c"
    with step ret show False by simp
  qed
  obtain a where a: "EnumProcesses os c = Some a"
  proof (cases "EnumProcesses os c")
    case None
    with step ret m show ?thesis by simp
  next
    case (Some a)
    then show ?thesis by (rule that)
  qed
  from contract [OF a] have le: "length a * 4 \<le> c"
    and lt: "length a < 2 ^ 30 - 1024" by auto
  have modl: "length a * 4 mod 2 ^ 32 = length a * 4" using lt by simp
  show ?case
  proof (cases "length a * 4 = c")
    case True
    then have next_i: "i + 1 \<le> 1048574" using lt c by simp
    have rec: "psutil_get_pids_loop os n s = Some (Some (cap, ret, arr), s')"
      using ret step m a True modl by simp
    have c1: "\<not> INT_MAX < procArraySz + 1024" using small by (simp add: INT_MAX_def)
    have cmod: "(procArraySz + 1024) * sizeof_DWORD mod 2 ^ 32 = c"
      using c32 by (simp add: sizeof_DWORD_def c_def n_def)
    have c2: "\<not> \<not> malloc_ok os ((procArraySz + 1024) * sizeof_DWORD mod 2 ^ 32)"
      unfolding cmod using m by simp
    have c3: "EnumProcesses os ((procArraySz + 1024) * sizeof_DWORD mod 2 ^ 32) = Some a"
      unfolding cmod using a by simp
    have cmod': "(procArraySz + 1024) * sizeof_DWORD mod 2 ^ size_t_bits os = c"
    proof (cases "WIN64 os")
      case True
      have "c < 2 ^ 64" using c32 by simp
      then show ?thesis using True by (simp add: size_t_bits_def sizeof_DWORD_def c_def n_def)
    next
      case False
      then show ?thesis using cmod by (simp add: size_t_bits_def)
    qed
    have c4: "length a * sizeof_DWORD mod 2 ^ 32 =
        (procArraySz + 1024) * sizeof_DWORD mod 2 ^ size_t_bits os"
      unfolding cmod' using True modl by (simp add: sizeof_DWORD_def)
    have p2: "procArraySz + 1024 = 1024 * (i + 1)" using n by (simp add: n_def)
    from "1.IH" [OF c1 c2 c3 c4 p2 next_i rec [unfolded n_def] contract]
    obtain k where k: "k > i + 1" "cap = 1024 * k" "k \<le> 1048575"
      "\<forall>j. i + 1 < j \<and> j < k \<longrightarrow> malloc_ok os (4096 * j)
                   \<and> (\<exists>a. EnumProcesses os (4096 * j) = Some a \<and> length a * 4 = 4096 * j)"
      "malloc_ok os (4096 * k)" "EnumProcesses os (4096 * k) = Some arr"
      "ret = length arr * 4" "ret < 4096 * k" "s' = s"
      by blast
    have "\<forall>j. i < j \<and> j < k \<longrightarrow> malloc_ok os (4096 * j)
                   \<and> (\<exists>a. EnumProcesses os (4096 * j) = Some a \<and> length a * 4 = 4096 * j)"
    proof (intro allI impI)
      fix j assume j: "i < j \<and> j < k"
      show "malloc_ok os (4096 * j)
                   \<and> (\<exists>a. EnumProcesses os (4096 * j) = Some a \<and> length a * 4 = 4096 * j)"
      proof (cases "j = i + 1")
        case True
        then show ?thesis using m a \<open>length a * 4 = c\<close> c by auto
      next
        case False
        then have "i + 1 < j \<and> j < k" using j by simp
        then show ?thesis using k(4) by blast
      qed
    qed
    with k show ?thesis by (intro exI [of _ k]) simp
  next
    case False
    then have e1: "psutil_get_pids_loop os procArraySz s = Some (Some (n, length a * 4, a), s)"
      using step m a modl by simp
    have "Some (Some (cap, ret, arr), s') = Some (Some (n, length a * 4, a), s)"
      by (rule trans [OF ret [symmetric] e1])
    then have res: "cap = n" "ret = length a * 4" "arr = a" "s' = s"
      by auto
    have lt_c: "ret < c" using False le res by simp
    have vac: "\<forall>j. i < j \<and> j < i + 1 \<longrightarrow> malloc_ok os (4096 * j)
                   \<and> (\<exists>a. EnumProcesses os (4096 * j) = Some a \<and> length a * 4 = 4096 * j)"
      by auto
    have "i + 1 > i \<and> cap = 1024 * (i + 1) \<and> i + 1 \<le> 1048575
            \<and> (\<forall>j. i < j \<and> j < i + 1 \<longrightarrow> malloc_ok os (4096 * j)
                   \<and> (\<exists>a. EnumProcesses os (4096 * j) = Some a \<and> length a * 4 = 4096 * j))
            \<and> malloc_ok os (4096 * (i + 1)) \<and> EnumProcesses os (4096 * (i + 1)) = Some arr
            \<and> ret = length arr * 4 \<and> ret < 4096 * (i + 1) \<and> s' = s"
      using res m a n c bound lt_c vac by (simp del: One_nat_def)
    then show ?thesis by (rule exI [of _ "i + 1"])
  qed
qed


text \<open>Under the same contract the loop returns: it never runs into the signed overflow.\<close>

lemma get_pids_loop_returns:
  assumes contract: "\<And>cb arr. EnumProcesses os cb = Some arr
                       \<Longrightarrow> length arr * 4 \<le> cb \<and> length arr < 2 ^ 30 - 1024"
  shows "procArraySz = 1024 * i \<Longrightarrow> i \<le> 1048574 \<Longrightarrow>
         psutil_get_pids_loop os procArraySz s \<noteq> None"
  using contract
proof (induction os procArraySz s arbitrary: i rule: psutil_get_pids_loop.induct)
  case (1 os procArraySz s)
  have eq: "procArraySz = 1024 * i" and bound: "i \<le> 1048574"
    using "1.prems" by blast+
  have contract: "length arr * 4 \<le> cb \<and> length arr < 2 ^ 30 - 1024"
    if "EnumProcesses os cb = Some arr" for cb arr
    using "1.prems" that by blast
  define n where "n = procArraySz + 1024"
  define c where "c = n * 4"
  have small: "procArraySz + 1024 < 2 ^ 30" using eq bound by simp
  have n: "n = 1024 * (i + 1)" using eq by (simp add: n_def)
  have c: "c = 4096 * (i + 1)" using n by (simp add: c_def)
  have c32: "c < 2 ^ 32" using small by (simp add: c_def n_def)
  note step = get_pids_loop_step [OF small, of os s, folded n_def, folded c_def]
  show ?case
  proof (cases "malloc_ok os c")
    case False
    with step show ?thesis by simp
  next
    case m: True
    show ?thesis
    proof (cases "EnumProcesses os c")
      case None
      with step m show ?thesis by simp
    next
      case (Some a)
      from contract [OF Some] have le: "length a * 4 \<le> c"
        and lt: "length a < 2 ^ 30 - 1024" by auto
      have modl: "length a * 4 mod 2 ^ 32 = length a * 4" using lt by simp
      show ?thesis
      proof (cases "length a * 4 = c")
        case False
        with step m Some modl show ?thesis by simp
      next
        case True
        then have next_i: "i + 1 \<le> 1048574" using lt c by simp
        have c1: "\<not> INT_MAX < procArraySz + 1024" using small by (simp add: INT_MAX_def)
        have cmod: "(procArraySz + 1024) * sizeof_DWORD mod 2 ^ 32 = c"
          using c32 by (simp add: sizeof_DWORD_def c_def n_def)
        have c2: "\<not> \<not> malloc_ok os ((procArraySz + 1024) * sizeof_DWORD mod 2 ^ 32)"
          unfolding cmod using m by simp
        have c3: "EnumProcesses os ((procArraySz + 1024) * sizeof_DWORD mod 2 ^ 32) = Some a"
          unfolding cmod using Some by simp
        have cmod': "(procArraySz + 1024) * sizeof_DWORD mod 2 ^ size_t_bits os = c"
        proof (cases "WIN64 os")
          case True
          have "c < 2 ^ 64" using c32 by simp
          then show ?thesis
            using True by (simp add: size_t_bits_def sizeof_DWORD_def c_def n_def)
        next
          case False
          then show ?thesis using cmod by (simp add: size_t_bits_def)
        qed
        have c4: "length a * sizeof_DWORD mod 2 ^ 32 =
            (procArraySz + 1024) * sizeof_DWORD mod 2 ^ size_t_bits os"
          unfolding cmod' using True modl by (simp add: sizeof_DWORD_def)
        have p2: "procArraySz + 1024 = 1024 * (i + 1)" using n by (simp add: n_def)
        have "psutil_get_pids_loop os (procArraySz + 1024) s \<noteq> None"
          by (rule "1.IH" [OF c1 c2 c3 c4 p2 next_i contract])
        moreover have "psutil_get_pids_loop os procArraySz s = psutil_get_pids_loop os n s"
          using step m Some True modl by simp
        ultimately show ?thesis by (simp add: n_def)
      qed
    qed
  qed
qed

text \<open>
  The loop run forward: when the buffers of the iterations after the \<open>i\<close>-th are filled
  exactly up to the \<open>k\<close>-th, which is not, the loop started at capacity \<open>1024 * i\<close> returns
  from the \<open>k\<close>-th iteration.
\<close>

lemma get_pids_loop_runs:
  assumes "k \<le> 1048575"
    and "malloc_ok os (4096 * k)" and "EnumProcesses os (4096 * k) = Some arr"
    and "length arr * 4 < 4096 * k"
  shows "i < k \<Longrightarrow>
         (\<forall>j. i < j \<and> j < k \<longrightarrow> malloc_ok os (4096 * j)
               \<and> (\<exists>a. EnumProcesses os (4096 * j) = Some a \<and> length a * 4 = 4096 * j)) \<Longrightarrow>
         psutil_get_pids_loop os (1024 * i) s = Some (Some (1024 * k, length arr * 4, arr), s)"
proof (induction "k - i" arbitrary: i)
  case 0
  then show ?case by simp
next
  case (Suc d)
  define n where "n = 1024 * i + 1024"
  define c where "c = n * 4"
  have n: "n = 1024 * (i + 1)" by (simp add: n_def)
  have c: "c = 4096 * (i + 1)" by (simp add: c_def n_def)
  have small: "1024 * i + 1024 < 2 ^ 30" using Suc.prems(1) assms(1) by simp
  note step = get_pids_loop_step [OF small, of os s, folded n_def, folded c_def]
  show ?case
  proof (cases "i + 1 = k")
    case True
    then have ck: "c = 4096 * k" and nk: "n = 1024 * k" using c n by simp_all
    have "length arr * 4 < 2 ^ 32" using assms(4) assms(1) by simp
    then have modl: "length arr * 4 mod 2 ^ 32 = length arr * 4" by simp
    have ne: "length arr * 4 \<noteq> c" using assms(4) ck by simp
    show ?thesis
      using step assms(2,3) modl ne unfolding ck [symmetric] nk [symmetric] by simp
  next
    case False
    then have lt: "i + 1 < k" using Suc.prems(1) by simp
    have "i < i + 1 \<and> i + 1 < k \<longrightarrow> malloc_ok os (4096 * (i + 1))
               \<and> (\<exists>a. EnumProcesses os (4096 * (i + 1)) = Some a \<and> length a * 4 = 4096 * (i + 1))"
      using Suc.prems(2) by (rule spec)
    with lt have m: "malloc_ok os (4096 * (i + 1))"
      and "\<exists>a. EnumProcesses os (4096 * (i + 1)) = Some a \<and> length a * 4 = 4096 * (i + 1)"
      by simp_all
    then obtain a where a: "EnumProcesses os c = Some a" and full: "length a * 4 = c"
      unfolding c by blast
    have "c < 2 ^ 32" using small by (simp add: c_def n_def)
    then have modl: "length a * 4 mod 2 ^ 32 = c" using full by simp
    have m': "malloc_ok os c" using m c by simp
    have "psutil_get_pids_loop os (1024 * i) s = psutil_get_pids_loop os n s"
      using step m' a modl by simp
    also have "\<dots> = psutil_get_pids_loop os (1024 * (i + 1)) s" by (simp only: n)
    also have "\<dots> = Some (Some (1024 * k, length arr * 4, arr), s)"
    proof (rule Suc.hyps(1))
      show "d = k - (i + 1)" using Suc.hyps(2) by simp
      show "i + 1 < k" by (rule lt)
      show "\<forall>j. i + 1 < j \<and> j < k \<longrightarrow> malloc_ok os (4096 * j)
               \<and> (\<exists>a. EnumProcesses os (4096 * j) = Some a \<and> length a * 4 = 4096 * j)"
        using Suc.prems(2) by simp
    qed
    finally show ?thesis .
  qed
qed

text \<open>The loop read backward: what a returned array says about the iterations.\<close>

lemma get_pids_loop_returned:
  assumes "\<And>cb arr. EnumProcesses os cb = Some arr
             \<Longrightarrow> length arr * sizeof_DWORD \<le> cb \<and> length arr < 2 ^ 30 - 1024"
    and "psutil_get_pids_loop os 0 s = Some (Some (procArraySz, enumReturnSz, procArray), s')"
  shows "\<exists>k\<ge>1. procArraySz = 1024 * k
          \<and> (\<forall>j. 1 \<le> j \<and> j < k \<longrightarrow>
                 malloc_ok os (1024 * j * sizeof_DWORD)
               \<and> (\<exists>a. EnumProcesses os (1024 * j * sizeof_DWORD) = Some a
                      \<and> length a * sizeof_DWORD = 1024 * j * sizeof_DWORD))
          \<and> malloc_ok os (procArraySz * sizeof_DWORD)
          \<and> EnumProcesses os (procArraySz * sizeof_DWORD) = Some procArray
          \<and> enumReturnSz = length procArray * sizeof_DWORD
          \<and> enumReturnSz \<noteq> procArraySz * sizeof_DWORD
          \<and> psutil_get_pids os s = Some (Some (procArray, enumReturnSz div sizeof_DWORD), s')
          \<and> enumReturnSz div sizeof_DWORD < procArraySz"
proof -
  have contract: "length arr * 4 \<le> cb \<and> length arr < 2 ^ 30 - 1024"
    if "EnumProcesses os cb = Some arr" for cb arr
    using assms(1) [OF that] by (simp add: sizeof_DWORD_def)
  from get_pids_loop_characterised [OF contract _ _ assms(2), of 0]
  obtain k where k: "k > 0" "procArraySz = 1024 * k"
    "\<forall>j. 0 < j \<and> j < k \<longrightarrow> malloc_ok os (4096 * j)
         \<and> (\<exists>a. EnumProcesses os (4096 * j) = Some a \<and> length a * 4 = 4096 * j)"
    "malloc_ok os (4096 * k)" "EnumProcesses os (4096 * k) = Some procArray"
    "enumReturnSz = length procArray * 4" "enumReturnSz < 4096 * k" "s' = s"
    by auto
  have cap: "procArraySz * sizeof_DWORD = 4096 * k" using k(2) by (simp add: sizeof_DWORD_def)
  have idx: "1024 * j * sizeof_DWORD = 4096 * j" for j by (simp add: sizeof_DWORD_def)
  have "1 \<le> k \<and> procArraySz = 1024 * k
          \<and> (\<forall>j. 1 \<le> j \<and> j < k \<longrightarrow>
                 malloc_ok os (1024 * j * sizeof_DWORD)
               \<and> (\<exists>a. EnumProcesses os (1024 * j * sizeof_DWORD) = Some a
                      \<and> length a * sizeof_DWORD = 1024 * j * sizeof_DWORD))
          \<and> malloc_ok os (procArraySz * sizeof_DWORD)
          \<and> EnumProcesses os (procArraySz * sizeof_DWORD) = Some procArray
          \<and> enumReturnSz = length procArray * sizeof_DWORD
          \<and> enumReturnSz \<noteq> procArraySz * sizeof_DWORD
          \<and> psutil_get_pids os s = Some (Some (procArray, enumReturnSz div sizeof_DWORD), s')
          \<and> enumReturnSz div sizeof_DWORD < procArraySz"
    unfolding cap idx
    using k assms(2) by (auto simp: psutil_get_pids_def sizeof_DWORD_def)
  then show ?thesis by (rule exI [of _ k])
qed

text \<open>
  C6. Under the contract of \<^verbatim>\<open>EnumProcesses\<close> the loop of \<^verbatim>\<open>psutil_get_pids\<close> is
  determined by the answers of the system. If the buffers of the iterations \<open>1\<close> to
  \<open>k - 1\<close>, of \<open>1024 * j\<close> entries each (1024 more on each iteration, from 1024), are
  granted and filled exactly, and the buffer of iteration \<open>k\<close> is granted and receives a byte
  count different from its byte size, then the loop repeats after each of the first
  \<open>k - 1\<close> iterations and returns from the \<open>k\<close>-th, with capacity \<open>1024 * k\<close>; the number
  of pids reported is the returned byte count divided by the entry size, and it is strictly
  below the final capacity. Conversely, whenever the loop returns an array, its iterations
  were of this form.
\<close>

theorem get_pids_growth_loop:
  assumes "\<And>cb arr. EnumProcesses os cb = Some arr
             \<Longrightarrow> length arr * sizeof_DWORD \<le> cb \<and> length arr < 2 ^ 30 - 1024"
  shows "(1 \<le> k
           \<and> (\<forall>j. 1 \<le> j \<and> j < k \<longrightarrow>
                  malloc_ok os (1024 * j * sizeof_DWORD)
                \<and> (\<exists>a. EnumProcesses os (1024 * j * sizeof_DWORD) = Some a
                       \<and> length a * sizeof_DWORD = 1024 * j * sizeof_DWORD))
           \<and> malloc_ok os (1024 * k * sizeof_DWORD)
           \<and> EnumProcesses os (1024 * k * sizeof_DWORD) = Some procArray
           \<and> length procArray * sizeof_DWORD \<noteq> 1024 * k * sizeof_DWORD
          \<longrightarrow> psutil_get_pids_loop os 0 s
                = Some (Some (1024 * k, length procArray * sizeof_DWORD, procArray), s)
              \<and> psutil_get_pids os s
                = Some (Some (procArray, length procArray * sizeof_DWORD div sizeof_DWORD), s)
              \<and> length procArray * sizeof_DWORD div sizeof_DWORD < 1024 * k)
       \<and> (psutil_get_pids_loop os 0 s = Some (Some (procArraySz, enumReturnSz, arr), s')
          \<longrightarrow> (\<exists>k\<ge>1. procArraySz = 1024 * k
                \<and> (\<forall>j. 1 \<le> j \<and> j < k \<longrightarrow>
                       malloc_ok os (1024 * j * sizeof_DWORD)
                     \<and> (\<exists>a. EnumProcesses os (1024 * j * sizeof_DWORD) = Some a
                            \<and> length a * sizeof_DWORD = 1024 * j * sizeof_DWORD))
                \<and> malloc_ok os (procArraySz * sizeof_DWORD)
                \<and> EnumProcesses os (procArraySz * sizeof_DWORD) = Some arr
                \<and> enumReturnSz = length arr * sizeof_DWORD
                \<and> enumReturnSz \<noteq> procArraySz * sizeof_DWORD
                \<and> psutil_get_pids os s = Some (Some (arr, enumReturnSz div sizeof_DWORD), s')
                \<and> enumReturnSz div sizeof_DWORD < procArraySz))"
proof (rule conjI; rule impI)
  assume a: "1 \<le> k
           \<and> (\<forall>j. 1 \<le> j \<and> j < k \<longrightarrow>
                  malloc_ok os (1024 * j * sizeof_DWORD)
                \<and> (\<exists>a. EnumProcesses os (1024 * j * sizeof_DWORD) = Some a
                       \<and> length a * sizeof_DWORD = 1024 * j * sizeof_DWORD))
           \<and> malloc_ok os (1024 * k * sizeof_DWORD)
           \<and> EnumProcesses os (1024 * k * sizeof_DWORD) = Some procArray
           \<and> length procArray * sizeof_DWORD \<noteq> 1024 * k * sizeof_DWORD"
  have idx: "1024 * j * sizeof_DWORD = 4096 * j" for j by (simp add: sizeof_DWORD_def)
  have len: "length xs * sizeof_DWORD = length xs * 4" for xs :: "DWORD list"
    by (simp add: sizeof_DWORD_def)
  from a have k1: "1 \<le> k"
    and filled: "\<forall>j. 0 < j \<and> j < k \<longrightarrow> malloc_ok os (4096 * j)
               \<and> (\<exists>a. EnumProcesses os (4096 * j) = Some a \<and> length a * 4 = 4096 * j)"
    and m: "malloc_ok os (4096 * k)" and e: "EnumProcesses os (4096 * k) = Some procArray"
    and ne: "length procArray * 4 \<noteq> 4096 * k"
    unfolding idx len by (simp_all add: Suc_le_eq)
  from assms [OF e] have "length procArray * 4 \<le> 4096 * k" by (simp add: sizeof_DWORD_def)
  with ne have lt: "length procArray * 4 < 4096 * k" by simp
  have kb: "k \<le> 1048575"
  proof (rule ccontr)
    assume "\<not> k \<le> 1048575"
    then have "0 < (1048575 :: nat) \<and> 1048575 < k" by simp
    with filled obtain a where a: "EnumProcesses os (4096 * 1048575) = Some a"
      and full: "length a * 4 = 4096 * 1048575" by blast
    from assms [OF a] have "length a < 2 ^ 30 - 1024" by simp
    with full show False by simp
  qed
  have loop: "psutil_get_pids_loop os 0 s = Some (Some (1024 * k, length procArray * 4, procArray), s)"
    using get_pids_loop_runs [OF kb m e lt, of 0 s] k1 filled by simp
  have cnt: "length procArray * 4 div 4 = length procArray" by simp
  show "psutil_get_pids_loop os 0 s
                = Some (Some (1024 * k, length procArray * sizeof_DWORD, procArray), s)
              \<and> psutil_get_pids os s
                = Some (Some (procArray, length procArray * sizeof_DWORD div sizeof_DWORD), s)
              \<and> length procArray * sizeof_DWORD div sizeof_DWORD < 1024 * k"
    unfolding len using loop lt by (simp add: psutil_get_pids_def sizeof_DWORD_def)
next
  assume "psutil_get_pids_loop os 0 s = Some (Some (procArraySz, enumReturnSz, arr), s')"
  from get_pids_loop_returned [OF assms this]
  show "\<exists>k\<ge>1. procArraySz = 1024 * k
                \<and> (\<forall>j. 1 \<le> j \<and> j < k \<longrightarrow>
                       malloc_ok os (1024 * j * sizeof_DWORD)
                     \<and> (\<exists>a. EnumProcesses os (1024 * j * sizeof_DWORD) = Some a
                            \<and> length a * sizeof_DWORD = 1024 * j * sizeof_DWORD))
                \<and> malloc_ok os (procArraySz * sizeof_DWORD)
                \<and> EnumProcesses os (procArraySz * sizeof_DWORD) = Some arr
                \<and> enumReturnSz = length arr * sizeof_DWORD
                \<and> enumReturnSz \<noteq> procArraySz * sizeof_DWORD
                \<and> psutil_get_pids os s = Some (Some (arr, enumReturnSz div sizeof_DWORD), s')
                \<and> enumReturnSz div sizeof_DWORD < procArraySz" .
qed

text \<open>
  A table of 1500 ids: the first buffer of 1024 entries is filled, the second, of 2048,
  is not, and the loop returns the 1500 ids from its second iteration.
\<close>

theorem get_pids_growth_loop_witness:
  "malloc_ok (world False (OsOk 0) 87 (replicate 1500 4)) (1024 * 1 * sizeof_DWORD)
   \<and> EnumProcesses (world False (OsOk 0) 87 (replicate 1500 4)) (1024 * 1 * sizeof_DWORD)
       = Some (replicate 1024 4)
   \<and> length (replicate 1024 (4 :: DWORD)) * sizeof_DWORD = 1024 * 1 * sizeof_DWORD
   \<and> malloc_ok (world False (OsOk 0) 87 (replicate 1500 4)) (1024 * 2 * sizeof_DWORD)
   \<and> EnumProcesses (world False (OsOk 0) 87 (replicate 1500 4)) (1024 * 2 * sizeof_DWORD)
       = Some (replicate 1500 4)
   \<and> length (replicate 1500 (4 :: DWORD)) * sizeof_DWORD \<noteq> 1024 * 2 * sizeof_DWORD
   \<and> psutil_get_pids_loop (world False (OsOk 0) 87 (replicate 1500 4)) 0 s_init
       = Some (Some (2048, 6000, replicate 1500 4), s_init)
   \<and> psutil_get_pids (world False (OsOk 0) 87 (replicate 1500 4)) s_init
       = Some (Some (replicate 1500 4, 1500), s_init)
   \<and> (1500 :: nat) < 2048"
proof -
  let ?w = "world False (OsOk 0) 87 (replicate 1500 4)"
  have contract: "length arr * sizeof_DWORD \<le> cb \<and> length arr < 2 ^ 30 - 1024"
    if "EnumProcesses ?w cb = Some arr" for cb arr
    using that by (auto simp: world_def sizeof_DWORD_def)
  have m: "malloc_ok ?w n" for n by (simp add: world_def)
  have e1: "EnumProcesses ?w (1024 * 1 * sizeof_DWORD) = Some (replicate 1024 4)"
    by (simp add: world_def sizeof_DWORD_def)
  have l1: "length (replicate 1024 (4 :: DWORD)) * sizeof_DWORD = 1024 * 1 * sizeof_DWORD"
    by (simp add: sizeof_DWORD_def)
  have e2: "EnumProcesses ?w (1024 * 2 * sizeof_DWORD) = Some (replicate 1500 4)"
    by (simp add: world_def sizeof_DWORD_def)
  have l2: "length (replicate 1500 (4 :: DWORD)) * sizeof_DWORD \<noteq> 1024 * 2 * sizeof_DWORD"
    by (simp add: sizeof_DWORD_def)
  have filled: "\<forall>j. 1 \<le> j \<and> j < (2 :: nat) \<longrightarrow>
                  malloc_ok ?w (1024 * j * sizeof_DWORD)
                \<and> (\<exists>a. EnumProcesses ?w (1024 * j * sizeof_DWORD) = Some a
                       \<and> length a * sizeof_DWORD = 1024 * j * sizeof_DWORD)"
  proof (intro allI impI)
    fix j :: nat assume "1 \<le> j \<and> j < 2"
    then have "j = 1" by simp
    then show "malloc_ok ?w (1024 * j * sizeof_DWORD)
                \<and> (\<exists>a. EnumProcesses ?w (1024 * j * sizeof_DWORD) = Some a
                       \<and> length a * sizeof_DWORD = 1024 * j * sizeof_DWORD)"
      using m e1 l1 by simp
  qed
  have pre: "1 \<le> (2 :: nat)
           \<and> (\<forall>j. 1 \<le> j \<and> j < (2 :: nat) \<longrightarrow>
                  malloc_ok ?w (1024 * j * sizeof_DWORD)
                \<and> (\<exists>a. EnumProcesses ?w (1024 * j * sizeof_DWORD) = Some a
                       \<and> length a * sizeof_DWORD = 1024 * j * sizeof_DWORD))
           \<and> malloc_ok ?w (1024 * 2 * sizeof_DWORD)
           \<and> EnumProcesses ?w (1024 * 2 * sizeof_DWORD) = Some (replicate 1500 4)
           \<and> length (replicate 1500 (4 :: DWORD)) * sizeof_DWORD \<noteq> 1024 * 2 * sizeof_DWORD"
    using filled m e2 l2 by simp
  from get_pids_growth_loop [of ?w 2 "replicate 1500 4" s_init, OF contract] pre
  have "psutil_get_pids_loop ?w 0 s_init
          = Some (Some (1024 * 2, length (replicate 1500 (4 :: DWORD)) * sizeof_DWORD,
                        replicate 1500 4), s_init)
        \<and> psutil_get_pids ?w s_init
          = Some (Some (replicate 1500 4,
                        length (replicate 1500 (4 :: DWORD)) * sizeof_DWORD div sizeof_DWORD), s_init)"
    by blast
  then have r: "psutil_get_pids_loop ?w 0 s_init = Some (Some (2048, 6000, replicate 1500 4), s_init)"
    "psutil_get_pids ?w s_init = Some (Some (replicate 1500 4, 1500), s_init)"
    by (simp_all add: sizeof_DWORD_def)
  from m e1 l1 e2 l2 r show ?thesis by simp
qed

section \<open>The remote reader: which field, which bitness\<close>

















section \<open>The remote reader: allocation and copy\<close>

text \<open>The size of a region is a \<^verbatim>\<open>SIZE_T\<close> value.\<close>

lemma region_size_bound:
  assumes "psutil_get_process_region_size os rd h src = Some m"
  shows "m < 2 ^ size_t_bits os"
proof (cases "VirtualQueryEx rd h src")
  case None
  with assms show ?thesis by (simp add: psutil_get_process_region_size_def)
next
  case (Some info)
  define d where "d = int (RegionSize info) - (int src - int (BaseAddress info))"
  have m: "m = nat (d mod 2 ^ size_t_bits os)"
    using assms Some by (simp add: psutil_get_process_region_size_def d_def)
  have "d mod 2 ^ size_t_bits os < 2 ^ size_t_bits os"
    by (rule pos_mod_bound) simp
  moreover have "0 \<le> d mod 2 ^ size_t_bits os"
    by (rule pos_mod_sign) simp
  ultimately show ?thesis unfolding m by (simp add: nat_less_iff)
qed

lemma copy_field_out_of_memory:
  "\<not> calloc_ok rd ((size' + 2) mod 2 ^ size_t_bits os) \<Longrightarrow>
     copy_field os rd h source size' s = Some (None, CloseHandle h (PyErr_Set MemoryError s))"
  by (simp add: copy_field_def)

text \<open>
  A copy that stays inside the buffer means that \<open>size + 2\<close> did not wrap around.
\<close>

lemma no_wrap:
  fixes size' :: nat
  assumes "\<not> size' > (size' + 2) mod 2 ^ size_t_bits os"
  shows "size' + 2 < 2 ^ size_t_bits os"
proof (rule ccontr)
  define M :: nat where "M = 2 ^ size_t_bits os"
  assume "\<not> size' + 2 < 2 ^ size_t_bits os"
  then have ge: "M \<le> size' + 2" by (simp add: M_def)
  have M4: "4 \<le> M" by (simp add: M_def size_t_bits_def)
  have le: "size' \<le> (size' + 2) mod M" using assms by (simp add: M_def)
  have lt: "(size' + 2) mod M < M" using M4 by simp
  from le lt have small: "size' < M" by simp
  then have "size' + 2 - M < M" using M4 by simp
  then have "(size' + 2) mod M = size' + 2 - M" using ge
    by (metis le_mod_geq mod_less)
  then show False using le ge M4 small by simp
qed

lemma copy_field_success:
  assumes "copy_field os rd h source size' s = Some (Some (buffer, n), s')"
  shows "n = size' \<and> length buffer = size' + 2 \<and> calloc_ok rd (size' + 2)
         \<and> size' + 2 < 2 ^ size_t_bits os \<and> s' = CloseHandle h s
         \<and> (\<exists>data. buffer = take size' data @ replicate (size' + 2 - min size' (length data)) 0)"
proof -
  define M where "M = (size' + 2) mod 2 ^ size_t_bits os"
  define answer where "answer = (case source of
                 Src64 src64 \<Rightarrow> NtWow64ReadVirtualMemory64 rd h src64 size'
               | Src src \<Rightarrow> ReadProcessMemory rd h src size')"
  have unf: "copy_field os rd h source size' s =
     (if \<not> calloc_ok rd M
      then Some (None, CloseHandle h (PyErr_Set MemoryError s))
      else
        (case answer of
           None \<Rightarrow> Some (None, CloseHandle h (PyErr_Set WindowsError_last s))
         | Some data \<Rightarrow>
             if size' > M then None
             else Some (Some (take size' data @ drop (min size' (length data)) (replicate M 0),
                              size'),
                        CloseHandle h s)))"
    by (simp only: copy_field_def M_def answer_def)
  have ok: "calloc_ok rd M"
  proof (rule ccontr)
    assume "\<not> calloc_ok rd M"
    with unf assms show False by simp
  qed
  obtain data where data: "answer = Some data"
  proof (cases answer)
    case None
    with unf assms ok show ?thesis by simp
  next
    case (Some d)
    then show ?thesis by (rule that)
  qed
  have fit: "\<not> size' > M"
  proof
    assume "size' > M"
    with unf assms ok data show False by simp
  qed
  have e: "Some (Some (buffer, n), s')
        = Some (Some (take size' data @ drop (min size' (length data)) (replicate M 0), size'),
                CloseHandle h s)"
    using unf assms ok data fit by simp
  from no_wrap [OF fit [unfolded M_def]] have nw: "size' + 2 < 2 ^ size_t_bits os" .
  then have m: "M = size' + 2" by (simp add: M_def)
  from e have res: "buffer = take size' data @ drop (min size' (length data)) (replicate M 0)"
    "n = size'" "s' = CloseHandle h s" by auto
  have len: "length buffer = size' + 2" unfolding res m by (simp add: min_def)
  have shape: "buffer = take size' data @ replicate (size' + 2 - min size' (length data)) 0"
    unfolding res m by (simp only: drop_replicate)
  show ?thesis using ok m nw res(2,3) len shape by auto
qed

lemma get_process_data_success:
  assumes "psutil_get_process_data os rd pid kind s = Some (Some (buffer, n), s')"
  shows "\<exists>h source s2. h \<noteq> NULL
           \<and> copy_field os rd h source n s2 = Some (Some (buffer, n), s')"
proof -
  let ?acc = "PROCESS_QUERY_INFORMATION OR PROCESS_VM_READ"
  have g: "GetProcAddress_NtQueryInformationProcess rd"
    using assms by (auto simp: psutil_get_process_data_def split: if_splits)
  obtain h s1 where hp: "psutil_handle_from_pid os pid ?acc s = Some (h, s1)"
    using assms g by (cases "psutil_handle_from_pid os pid ?acc s")
      (auto simp: psutil_get_process_data_def)
  have h: "h \<noteq> NULL"
    using assms g hp by (auto simp: psutil_get_process_data_def split: if_splits)
  obtain r s2 where l: "locate_field os rd h kind s1 = (r, s2)"
    by (cases "locate_field os rd h kind s1")
  obtain source size0 where r: "r = Inr (source, size0)"
    using assms g hp h l by (cases r) (auto simp: psutil_get_process_data_def)
  obtain size' where f: "field_size os rd h kind source size0 = Some (Inr size')"
    using assms g hp h l r
    by (cases "field_size os rd h kind source size0")
       (auto simp: psutil_get_process_data_def split: sum.splits)
  have c: "copy_field os rd h source size' s2 = Some (Some (buffer, n), s')"
    using assms g hp h l r f by (simp add: psutil_get_process_data_def)
  from copy_field_success [OF c] have "n = size'" by simp
  with c h show ?thesis by blast
qed


lemma handle_from_pid_world:
  "psutil_handle_from_pid (world False (OsOk STILL_ACTIVE) err table) 8 acc s_init
     = Some (7, s_init\<lparr>events := [Opened 7]\<rparr>)"
  by (simp add: psutil_handle_from_pid_def do_OpenProcess_def world_def NULL_def
      psutil_check_phandle_def psutil_is_phandle_running_def psutil_assert_pid_exists_def s_init_def)

lemma locate_field_native_world:
  "locate_field (world testing x err table)
      (target self False q64 cmdlen cwdlen info alloc) 7 kind s
     = (Inr (switch_kind (parameters 0x30000 0x31000 0x40000 cmdlen cwdlen) kind), s)"
  by (simp add: locate_field_def world_def target_def walk_native_def)

lemma locate_field_native_world32:
  "locate_field (world32 testing x err table)
      (target False False q64 cmdlen cwdlen info alloc) 7 kind s
     = (Inr (switch_kind (parameters 0x30000 0x31000 0x40000 cmdlen cwdlen) kind), s)"
  by (simp add: locate_field_def world32_def world_def target_def walk_native_def)

lemma get_process_data_located:
  assumes "GetProcAddress_NtQueryInformationProcess rd"
    and "psutil_handle_from_pid os pid (PROCESS_QUERY_INFORMATION OR PROCESS_VM_READ) s
           = Some (h, s1)"
    and "h \<noteq> NULL"
    and "locate_field os rd h kind s1 = (Inr (source, size0), s2)"
    and "field_size os rd h kind source size0 = Some (Inr size')"
  shows "psutil_get_process_data os rd pid kind s = copy_field os rd h source size' s2"
  using assms by (simp add: psutil_get_process_data_def)







section \<open>The remote reader: termination of the returned string\<close>

text \<open>
  After an even number of bytes, two zero bytes are a zero character: \<^verbatim>\<open>wcslen\<close> stops
  at it or before.
\<close>

lemma wcslen_terminated:
  "even (length xs) \<Longrightarrow> \<exists>k. wcslen (xs @ 0 # 0 # ys) = Some k \<and> 2 * k \<le> length xs"
proof (induction xs rule: wcslen.induct)
  case (1 lo hi rest)
  then show ?case by auto
next
  case (2 b)
  then show ?case by simp
next
  case 3
  then show ?case by simp
qed

lemma replicate_plus_two: "replicate (k + 2) x = replicate k x @ [x, x]"
  by (induction k) simp_all

text \<open>
  A successful extraction of even length returns a buffer on which \<^verbatim>\<open>wcslen\<close> stays
  inside the first \<open>n\<close> bytes and their terminator.
\<close>

lemma get_process_data_even_terminated:
  assumes "psutil_get_process_data os rd pid kind s = Some (Some (buffer, n), s')"
    and "even n"
  shows "\<exists>k. wcslen buffer = Some k \<and> 2 * k \<le> n"
proof -
  from get_process_data_success [OF assms(1)] obtain h source s2 where
    c: "copy_field os rd h source n s2 = Some (Some (buffer, n), s')" by blast
  from copy_field_success [OF c] obtain data where
    b: "buffer = take n data @ replicate (n + 2 - min n (length data)) 0" by blast
  define m where "m = min n (length data)"
  have lt: "length (take n data) = m" by (simp add: m_def)
  have "n + 2 - m = (n - m) + 2" by (simp add: m_def)
  then have "replicate (n + 2 - m) (0 :: BYTE) = replicate (n - m) 0 @ [0, 0]"
    by (simp only: replicate_plus_two)
  then have b': "buffer = (take n data @ replicate (n - m) 0) @ 0 # 0 # []"
    unfolding b m_def by simp
  define xs where "xs = take n data @ replicate (n - m) (0 :: BYTE)"
  have len: "length xs = n" using lt by (simp add: xs_def m_def)
  then have "even (length xs)" using assms(2) by simp
  from wcslen_terminated [OF this, of "[]"] len
  show ?thesis unfolding b' xs_def [symmetric] by simp
qed

text \<open>
  C10 at its failing input. The control block of process 8 gives the current directory a
  length of one byte. The extraction succeeds with the three-byte buffer \<open>0x41, 0, 0\<close>:
  its first 16-bit character is \<open>0x0041\<close>, the second would need a fourth byte, so
  \<^verbatim>\<open>wcslen\<close> in \<^verbatim>\<open>psutil_get_cwd\<close> reads past the end of the buffer.
\<close>

theorem odd_length_not_terminated:
  "psutil_get_process_data (world False (OsOk STILL_ACTIVE) 87 [8])
        (target False False None 6 1 \<lparr>BaseAddress = 0x40000, RegionSize = 0x1000\<rparr> (\<lambda>n. True))
        8 KIND_CWD s_init
     = Some (Some ([0x41, 0, 0], 1), s_init\<lparr>events := [Opened 7, Closed 7]\<rparr>)
   \<and> wcslen [0x41, 0, 0] = None
   \<and> psutil_get_cwd (world False (OsOk STILL_ACTIVE) 87 [8])
        (target False False None 6 1 \<lparr>BaseAddress = 0x40000, RegionSize = 0x1000\<rparr> (\<lambda>n. True))
        8 s_init = None"
proof -
  let ?w = "world False (OsOk STILL_ACTIVE) 87 [8]"
  let ?rd = "target False False None 6 1 \<lparr>BaseAddress = 0x40000, RegionSize = 0x1000\<rparr>
               (\<lambda>n. True)"
  let ?s1 = "s_init\<lparr>events := [Opened 7]\<rparr>"
  have g: "GetProcAddress_NtQueryInformationProcess ?rd" by (simp add: target_def)
  have h: "7 \<noteq> NULL" by (simp add: NULL_def)
  have l: "locate_field ?w ?rd 7 KIND_CWD ?s1 = (Inr (Src 0x31000, Some 1), ?s1)"
    by (simp add: locate_field_native_world switch_kind_def parameters_def)
  have f: "field_size ?w ?rd 7 KIND_CWD (Src 0x31000) (Some 1) = Some (Inr 1)"
    by (simp add: field_size_def)
  have bits: "size_t_bits ?w = 64" by (simp add: size_t_bits_def world_def)
  have r3: "replicate 2 (0 :: BYTE) = [0, 0]" by (simp add: numeral_eq_Suc)
  have c: "copy_field ?w ?rd 7 (Src 0x31000) 1 ?s1
        = Some (Some ([0x41, 0, 0], 1), s_init\<lparr>events := [Opened 7, Closed 7]\<rparr>)"
    unfolding copy_field_def bits
    by (simp add: target_def CloseHandle_def s_init_def r3)
  have d: "psutil_get_process_data ?w ?rd 8 KIND_CWD s_init
     = Some (Some ([0x41, 0, 0], 1), s_init\<lparr>events := [Opened 7, Closed 7]\<rparr>)"
    using get_process_data_located [OF g handle_from_pid_world h l f] c by simp
  have wl: "wcslen [0x41, 0, 0] = None" by simp
  show ?thesis using d wl by (simp add: psutil_get_cwd_def)
qed

section \<open>The direct command-line query\<close>

text \<open>
  C9 at its failing input. The first \<^verbatim>\<open>calloc\<close> of \<^verbatim>\<open>psutil_get_cmdline_data\<close> fails
  while the unassigned local \<^verbatim>\<open>hProcess\<close> holds \<open>0xCCCCCCCC\<close>: the \<^verbatim>\<open>error:\<close> label
  calls \<^verbatim>\<open>CloseHandle\<close> on that value, although the call has opened no handle.
\<close>

theorem cleanup_closes_unassigned_handle:
  "psutil_get_cmdline_data (world False (OsOk STILL_ACTIVE) 87 [8])
        (target False False None 6 4 \<lparr>BaseAddress = 0x40000, RegionSize = 0x1000\<rparr> (\<lambda>n. False))
        0xCCCCCCCC 8 s_init
     = Some (None, s_init\<lparr>pyerr := Some MemoryError, events := [Closed 0xCCCCCCCC]\<rparr>)"
  by (simp add: psutil_get_cmdline_data_def target_def cmdline_error_def NULL_def
      CloseHandle_def PyErr_Set_def s_init_def)

section \<open>The fallback snapshot: retry and scan\<close>

lemma psutil_get_proc_info_loop_retries:
  assumes "\<forall>k<n. too_small (fst (NtQuerySystemInformation tos k (retry_size tos initial k)))
                 \<and> malloc_ok os (retry_size tos initial (Suc k))"
  shows "j \<le> n \<Longrightarrow> psutil_get_proc_info_loop os tos (n - j) (retry_size tos initial (n - j)) s
           = psutil_get_proc_info_loop os tos n (retry_size tos initial n) s"
proof (induction j)
  case 0
  then show ?case by simp
next
  case (Suc j)
  define k where "k = n - Suc j"
  have k: "k < n" "Suc k = n - j" using Suc.prems by (simp_all add: k_def)
  obtain status ReturnLength buffer where
    q: "NtQuerySystemInformation tos k (retry_size tos initial k) = (status, ReturnLength, buffer)"
    by (cases "NtQuerySystemInformation tos k (retry_size tos initial k)") auto
  from assms k(1) q have ts: "too_small status" and m: "malloc_ok os (retry_size tos initial (Suc k))"
    by auto
  have rl: "retry_size tos initial (Suc k) = ReturnLength" using q by simp
  have "psutil_get_proc_info_loop os tos k (retry_size tos initial k) s
          = psutil_get_proc_info_loop os tos (Suc k) (retry_size tos initial (Suc k)) s"
    using q ts m rl by (subst psutil_get_proc_info_loop.simps) (simp add: too_small_def)
  also have "\<dots> = psutil_get_proc_info_loop os tos n (retry_size tos initial n) s"
    using Suc.IH Suc.prems k(2) by simp
  finally show ?case by (simp add: k_def)
qed

lemma psutil_get_proc_info_loop_stops:
  assumes "NtQuerySystemInformation tos n bufferSize = (status, ReturnLength, buffer)"
    and "\<not> too_small status"
  shows "psutil_get_proc_info_loop os tos n bufferSize s
           = Some (Some (status, bufferSize, ReturnLength, buffer), s)"
  using assms by (subst psutil_get_proc_info_loop.simps) (simp add: too_small_def)

lemma scan_linked_records:
  "linked_records buffer allocated process records \<Longrightarrow>
     psutil_get_proc_info_scan buffer allocated process pid
       = Some (find (\<lambda>(at, entry). UniqueProcessId entry = pid) records)"
proof (induction records arbitrary: process)
  case Nil
  then show ?case by simp
next
  case (Cons r rest)
  obtain at entry where r: "r = (at, entry)" by (cases r)
  from Cons.prems r have at: "at = process" and inb: "process < allocated"
    and e: "buffer process = Some entry" by simp_all
  show ?case
  proof (cases "UniqueProcessId entry = pid")
    case True
    then show ?thesis using r at inb e by (subst psutil_get_proc_info_scan.simps) simp
  next
    case False
    show ?thesis
    proof (cases "NextEntryOffset entry = 0")
      case True
      with Cons.prems r have "rest = []" by simp
      then show ?thesis using r False True inb e by (subst psutil_get_proc_info_scan.simps) simp
    next
      case nz: False
      with Cons.prems r have
        "linked_records buffer allocated (process + unat (NextEntryOffset entry)) rest"
        by simp
      from Cons.IH [OF this] show ?thesis
        using r False nz inb e by (subst psutil_get_proc_info_scan.simps) simp
    qed
  qed
qed

text \<open>
  C7. Let the first \<open>n\<close> answers of \<^verbatim>\<open>NtQuerySystemInformation\<close> be one of the two
  buffer-too-small codes and the next one be something else, each buffer being of the size
  the previous answer reported (and granted by \<^verbatim>\<open>malloc\<close>). Then the loop of
  \<^verbatim>\<open>psutil_get_proc_info\<close> makes exactly these \<open>n + 1\<close> calls and stops with the last
  answer. A last status other than 0 is a RuntimeError. On status 0, when the buffer holds
  a linked sequence of records, the result is the first record of the sequence whose id is
  the target pid, and NoSuchProcess when no record of the sequence has that id.
\<close>

theorem get_proc_info_protocol:
  assumes "GetProcAddressFromLib_NtQuerySystemInformation tos"
    and "malloc_ok os (initialBufferSize s)"
    and "\<forall>k<n. too_small (fst (NtQuerySystemInformation tos k
                                 (retry_size tos (initialBufferSize s) k)))
               \<and> malloc_ok os (retry_size tos (initialBufferSize s) (Suc k))"
    and "NtQuerySystemInformation tos n (retry_size tos (initialBufferSize s) n)
           = (status, ReturnLength, buffer)"
    and "\<not> too_small status"
  shows "psutil_get_proc_info_loop os tos 0 (initialBufferSize s) s
           = Some (Some (status, retry_size tos (initialBufferSize s) n, ReturnLength, buffer), s)
       \<and> (status \<noteq> 0 \<longrightarrow>
            psutil_get_proc_info os tos buffer0 pid s = Some (None, PyErr_Set RuntimeError s))
       \<and> (status = 0
            \<and> linked_records buffer (retry_size tos (initialBufferSize s) n) 0 records \<longrightarrow>
            psutil_get_proc_info os tos buffer0 pid s
              = (case find (\<lambda>(at, entry). UniqueProcessId entry = unat pid) records of
                   Some process \<Rightarrow> Some (Some (process, buffer), update_hint ReturnLength s)
                 | None \<Rightarrow> Some (None, PyErr_Set NoSuchProcess (update_hint ReturnLength s))))"
proof -
  have "psutil_get_proc_info_loop os tos 0 (initialBufferSize s) s
          = psutil_get_proc_info_loop os tos n (retry_size tos (initialBufferSize s) n) s"
    using psutil_get_proc_info_loop_retries [OF assms(3), of n s] by simp
  also have "\<dots> = Some (Some (status, retry_size tos (initialBufferSize s) n,
                                ReturnLength, buffer), s)"
    by (rule psutil_get_proc_info_loop_stops [OF assms(4,5)])
  finally have loop: "psutil_get_proc_info_loop os tos 0 (initialBufferSize s) s
           = Some (Some (status, retry_size tos (initialBufferSize s) n, ReturnLength, buffer), s)" .
  have p2: "psutil_get_proc_info os tos buffer0 pid s = Some (None, PyErr_Set RuntimeError s)"
    if "status \<noteq> 0"
    using assms(1,2) loop that by (simp add: psutil_get_proc_info_def)
  have p3: "psutil_get_proc_info os tos buffer0 pid s
              = (case find (\<lambda>(at, entry). UniqueProcessId entry = unat pid) records of
                   Some process \<Rightarrow> Some (Some (process, buffer), update_hint ReturnLength s)
                 | None \<Rightarrow> Some (None, PyErr_Set NoSuchProcess (update_hint ReturnLength s)))"
    if "status = 0 \<and> linked_records buffer (retry_size tos (initialBufferSize s) n) 0 records"
    using assms(1,2) loop that scan_linked_records [of buffer _ 0 records "unat pid"]
    by (simp add: psutil_get_proc_info_def split: option.splits)
  show ?thesis using loop p2 p3 by blast
qed

theorem get_proc_info_protocol_witness:
  "NtQuerySystemInformation table_world 0 (initialBufferSize s_init)
      = (STATUS_INFO_LENGTH_MISMATCH, 0x5000, Map.empty)
   \<and> NtQuerySystemInformation table_world 1 0x5000 = (0, 0x4800, snapshot3)
   \<and> linked_records snapshot3 0x5000 0
        [(0, \<lparr>NextEntryOffset = 0x100, UniqueProcessId = 0\<rparr>),
         (0x100, \<lparr>NextEntryOffset = 0x120, UniqueProcessId = 4\<rparr>),
         (0x220, \<lparr>NextEntryOffset = 0, UniqueProcessId = 8\<rparr>)]
   \<and> psutil_get_proc_info (world False (OsOk 0) 87 []) table_world NULL 8 s_init
      = Some (Some ((0x220, \<lparr>NextEntryOffset = 0, UniqueProcessId = 8\<rparr>), snapshot3),
              s_init\<lparr>initialBufferSize := 0x4800\<rparr>)
   \<and> psutil_get_proc_info (world False (OsOk 0) 87 []) table_world NULL 12 s_init
      = Some (None, s_init\<lparr>pyerr := Some NoSuchProcess, initialBufferSize := 0x4800\<rparr>)"
proof -
  let ?w = "world False (OsOk 0) 87 []"
  let ?records = "[(0, \<lparr>NextEntryOffset = 0x100, UniqueProcessId = 0\<rparr>),
         (0x100, \<lparr>NextEntryOffset = 0x120, UniqueProcessId = 4\<rparr>),
         (0x220 :: nat, \<lparr>NextEntryOffset = 0, UniqueProcessId = 8\<rparr>)]"
  have i: "initialBufferSize s_init = 0x4000" by (simp add: s_init_def)
  have g: "GetProcAddressFromLib_NtQuerySystemInformation table_world"
    by (simp add: table_world_def)
  have m: "malloc_ok ?w (initialBufferSize s_init)" by (simp add: world_def)
  have q0: "NtQuerySystemInformation table_world 0 (initialBufferSize s_init)
      = (STATUS_INFO_LENGTH_MISMATCH, 0x5000, Map.empty)"
    by (simp add: table_world_def i)
  have r1: "retry_size table_world (initialBufferSize s_init) (Suc 0) = 0x5000"
    using q0 by simp
  have retries: "\<forall>k<Suc 0. too_small (fst (NtQuerySystemInformation table_world k
                                 (retry_size table_world (initialBufferSize s_init) k)))
               \<and> malloc_ok ?w (retry_size table_world (initialBufferSize s_init) (Suc k))"
    using q0 r1 by (simp add: too_small_def world_def)
  have q1': "NtQuerySystemInformation table_world 1 0x5000 = (0, 0x4800, snapshot3)"
    by (simp add: table_world_def)
  have q1: "NtQuerySystemInformation table_world (Suc 0)
              (retry_size table_world (initialBufferSize s_init) (Suc 0)) = (0, 0x4800, snapshot3)"
    unfolding r1 by (simp add: table_world_def)
  have ok: "\<not> too_small 0"
    by (simp add: too_small_def STATUS_BUFFER_TOO_SMALL_def STATUS_INFO_LENGTH_MISMATCH_def)
  have lr: "linked_records snapshot3 0x5000 0 ?records"
    by (simp add: snapshot3_def)
  have h: "update_hint 0x4800 s_init = s_init\<lparr>initialBufferSize := 0x4800\<rparr>"
    by (simp add: update_hint_def)
  from get_proc_info_protocol [OF g m retries q1 ok, of NULL 8 ?records]
       get_proc_info_protocol [OF g m retries q1 ok, of NULL 12 ?records]
       q0 q1' lr h
  show ?thesis unfolding r1 by (simp add: PyErr_Set_def s_init_def)
qed

section \<open>Handles on the other paths\<close>

text \<open>
  Apart from the failed assertion above, the handle is released exactly once. The
  enumeration and the assertions leave the handle events alone.
\<close>

lemma get_pids_loop_events:
  "psutil_get_pids_loop os procArraySz s = Some (r, s') \<Longrightarrow> events s' = events s"
proof (induction os procArraySz s rule: psutil_get_pids_loop.induct)
  case (1 os procArraySz s)
  from "1.prems" show ?case
    apply (subst (asm) psutil_get_pids_loop.simps)
    apply (auto simp: PyErr_Set_def split: if_splits option.splits intro: "1.IH")
    done
qed

lemma pid_in_pids_events:
  "psutil_pid_in_pids os pid s = Some (r, s') \<Longrightarrow> events s' = events s"
  by (auto simp: psutil_pid_in_pids_def psutil_get_pids_def split: option.splits prod.splits
      dest: get_pids_loop_events)

lemma assert_pid_exists_normal:
  "\<not> PSUTIL_TESTING os \<Longrightarrow> psutil_assert_pid_exists os pid s = Some (1, s)"
  by (simp add: psutil_assert_pid_exists_def)

lemma assert_pid_not_exists_normal:
  "\<not> PSUTIL_TESTING os \<Longrightarrow> psutil_assert_pid_not_exists os pid s = Some (1, s)"
  by (simp add: psutil_assert_pid_not_exists_def)

lemma assert_pid_exists_events:
  assumes "psutil_assert_pid_exists os pid s = Some (r, s')"
  shows "events s' = events s"
proof (cases "PSUTIL_TESTING os")
  case False
  with assms show ?thesis by (simp add: psutil_assert_pid_exists_def)
next
  case True
  with assms obtain q s1 where p: "psutil_pid_in_pids os pid s = Some (q, s1)"
    and s': "s' = s1 \<or> s' = PyErr_Set AssertionError s1"
    by (cases "psutil_pid_in_pids os pid s")
       (auto simp: psutil_assert_pid_exists_def split: if_splits)
  from pid_in_pids_events [OF p] s' show ?thesis by (auto simp: PyErr_Set_def)
qed

lemma assert_pid_not_exists_events:
  assumes "psutil_assert_pid_not_exists os pid s = Some (r, s')"
  shows "events s' = events s"
proof (cases "PSUTIL_TESTING os")
  case False
  with assms show ?thesis by (simp add: psutil_assert_pid_not_exists_def)
next
  case True
  with assms obtain q s1 where p: "psutil_pid_in_pids os pid s = Some (q, s1)"
    and s': "s' = s1 \<or> s' = PyErr_Set AssertionError s1"
    by (cases "psutil_pid_in_pids os pid s")
       (auto simp: psutil_assert_pid_not_exists_def split: if_splits)
  from pid_in_pids_events [OF p] s' show ?thesis by (auto simp: PyErr_Set_def)
qed

text \<open>
  \<^verbatim>\<open>psutil_pid_is_running\<close>, with or without \<open>PSUTIL_TESTING\<close>: either no handle was
  opened, or one was opened and then closed once.
\<close>

lemma pid_is_running_releases_handle:
  assumes "psutil_pid_is_running os pid s = Some (r, s')"
  shows "events s' = events s
       \<or> (\<exists>h. h \<noteq> NULL \<and> events s' = events s @ [Opened h, Closed h])"
proof (cases "pid = 0")
  case True
  with assms show ?thesis by (simp add: psutil_pid_is_running_def)
next
  case False
  obtain h e where o: "OpenProcess os (PROCESS_QUERY_INFORMATION OR PROCESS_VM_READ) pid = (h, e)"
    by (cases "OpenProcess os (PROCESS_QUERY_INFORMATION OR PROCESS_VM_READ) pid")
  show ?thesis
  proof (cases "h = NULL")
    case True
    with assms False o have "events s' = events s"
      by (auto simp: psutil_pid_is_running_def do_OpenProcess_def SetLastError_def PyErr_Set_def
          split: if_splits option.splits
          dest!: assert_pid_exists_events assert_pid_not_exists_events)
    then show ?thesis by simp
  next
    case h: False
    with assms False o have "events s' = events s @ [Opened h, Closed h]"
      by (auto simp: psutil_pid_is_running_def do_OpenProcess_def SetLastError_def PyErr_Set_def
          CloseHandle_def
          split: if_splits option.splits os_result.splits
          dest!: assert_pid_exists_events pid_in_pids_events)
    with h show ?thesis by blast
  qed
qed


text \<open>
  In normal operation \<^verbatim>\<open>psutil_is_phandle_running\<close> keeps the handle open exactly when
  it answers 1, and \<^verbatim>\<open>psutil_handle_from_pid\<close> returns either the one open handle or
  \<open>NULL\<close> with nothing left open.
\<close>

lemma is_phandle_running_normal:
  assumes "\<not> PSUTIL_TESTING os" and "h \<noteq> NULL"
    and "psutil_is_phandle_running os h pid s = Some (ret, s')"
  shows "(ret = 1 \<and> events s' = events s) \<or> (ret \<noteq> 1 \<and> events s' = events s @ [Closed h])"
proof (cases "GetExitCodeProcess os h")
  case (OsFail err)
  with assms show ?thesis
    by (auto simp: psutil_is_phandle_running_def assert_pid_not_exists_normal CloseHandle_def
        SetLastError_def)
next
  case (OsOk code)
  show ?thesis
  proof (cases "code = STILL_ACTIVE")
    case True
    with assms OsOk show ?thesis
      by (auto simp: psutil_is_phandle_running_def assert_pid_exists_normal)
  next
    case False
    with assms OsOk obtain q s1 where p: "psutil_pid_in_pids os pid s = Some (q, s1)"
      and r: "(q = 1 \<and> ret = 1 \<and> s' = s1) \<or> (q \<noteq> 1 \<and> ret = 0 \<and> s' = CloseHandle h s1)"
      by (cases "psutil_pid_in_pids os pid s")
         (auto simp: psutil_is_phandle_running_def split: if_splits)
    from pid_in_pids_events [OF p] r show ?thesis by (auto simp: CloseHandle_def)
  qed
qed

lemma handle_from_pid_normal:
  assumes "\<not> PSUTIL_TESTING os"
    and "psutil_handle_from_pid os pid dwDesiredAccess s = Some (hProcess, s')"
  shows "(hProcess \<noteq> NULL \<and> events s' = events s @ [Opened hProcess])
       \<or> (hProcess = NULL
            \<and> (events s' = events s
                \<or> (\<exists>h. h \<noteq> NULL \<and> events s' = events s @ [Opened h, Closed h])))"
proof (cases "pid = 0")
  case True
  with assms show ?thesis by (auto simp: psutil_handle_from_pid_def PyErr_Set_def)
next
  case False
  obtain h e where o: "OpenProcess os dwDesiredAccess pid = (h, e)"
    by (cases "OpenProcess os dwDesiredAccess pid")
  show ?thesis
  proof (cases "h = NULL")
    case True
    with assms False o show ?thesis
      by (auto simp: psutil_handle_from_pid_def do_OpenProcess_def psutil_check_phandle_def
          psutil_is_phandle_running_def assert_pid_not_exists_normal SetLastError_def
          PyErr_Set_def split: if_splits)
  next
    case h: False
    define s1 where "s1 = s\<lparr>events := events s @ [Opened h]\<rparr>"
    have c: "psutil_check_phandle os h pid s1 = Some (hProcess, s')"
      using assms False o h by (simp add: psutil_handle_from_pid_def do_OpenProcess_def s1_def)
    then obtain ret s2 where i: "psutil_is_phandle_running os h pid s1 = Some (ret, s2)"
      by (cases "psutil_is_phandle_running os h pid s1")
         (auto simp: psutil_check_phandle_def)
    from is_phandle_running_normal [OF assms(1) h i]
    have ev: "(ret = 1 \<and> events s2 = events s1) \<or> (ret \<noteq> 1 \<and> events s2 = events s1 @ [Closed h])" .
    from c i have res: "(ret = 1 \<and> hProcess = h \<and> s' = s2)
        \<or> (ret \<noteq> 1 \<and> hProcess = NULL \<and> events s' = events s2)"
      by (auto simp: psutil_check_phandle_def PyErr_Set_def split: if_splits)
    from ev res h show ?thesis by (auto simp: s1_def)
  qed
qed

text \<open>
  In normal operation \<^verbatim>\<open>psutil_get_process_data\<close> and, once its local handle variable
  starts as \<open>NULL\<close>, \<^verbatim>\<open>psutil_get_cmdline_data\<close> release the handle they open exactly once
  on every path that returns.
\<close>

lemma locate_field_events:
  "locate_field os rd h kind s = (r, s') \<Longrightarrow> events s' = events s"
  by (auto simp: locate_field_def walk_narrower_def Let_def split: if_splits option.splits)

lemma copy_field_events:
  "copy_field os rd h source size' s = Some (r, s') \<Longrightarrow> events s' = events s @ [Closed h]"
  by (auto simp: copy_field_def CloseHandle_def PyErr_Set_def split: if_splits option.splits)

lemma get_process_data_releases_handle:
  assumes "\<not> PSUTIL_TESTING os"
    and "psutil_get_process_data os rd pid kind s = Some (r, s')"
  shows "events s' = events s
       \<or> (\<exists>h. h \<noteq> NULL \<and> events s' = events s @ [Opened h, Closed h])"
proof (cases "GetProcAddress_NtQueryInformationProcess rd")
  case False
  with assms show ?thesis by (auto simp: psutil_get_process_data_def PyErr_Set_def)
next
  case g: True
  let ?acc = "PROCESS_QUERY_INFORMATION OR PROCESS_VM_READ"
  obtain h s1 where hp: "psutil_handle_from_pid os pid ?acc s = Some (h, s1)"
    using assms g by (cases "psutil_handle_from_pid os pid ?acc s")
      (auto simp: psutil_get_process_data_def)
  note bal = handle_from_pid_normal [OF assms(1) hp]
  show ?thesis
  proof (cases "h = NULL")
    case True
    with assms g hp have "s' = s1" by (simp add: psutil_get_process_data_def)
    with bal True show ?thesis by auto
  next
    case h: False
    with bal have e1: "events s1 = events s @ [Opened h]" by simp
    obtain l s2 where l: "locate_field os rd h kind s1 = (l, s2)"
      by (cases "locate_field os rd h kind s1")
    from locate_field_events [OF l] have e2: "events s2 = events s1" .
    have "events s' = events s2 @ [Closed h]"
    proof (cases l)
      case (Inl e)
      with assms g hp h l show ?thesis
        by (auto simp: psutil_get_process_data_def CloseHandle_def PyErr_Set_def)
    next
      case (Inr loc)
      obtain source size0 where loc: "loc = (source, size0)" by (cases loc)
      show ?thesis
      proof (cases "field_size os rd h kind source size0")
        case None
        with assms g hp h l Inr loc show ?thesis by (simp add: psutil_get_process_data_def)
      next
        case (Some f)
        show ?thesis
        proof (cases f)
          case (Inl e)
          with assms g hp h l Inr loc Some show ?thesis
            by (auto simp: psutil_get_process_data_def CloseHandle_def PyErr_Set_def)
        next
          case (Inr size')
          with assms g hp h l \<open>l = Inr loc\<close> loc Some
          have "copy_field os rd h source size' s2 = Some (r, s')"
            by (simp add: psutil_get_process_data_def)
          then show ?thesis by (rule copy_field_events)
        qed
      qed
    qed
    with e1 e2 h show ?thesis by auto
  qed
qed


lemma get_cmdline_data_releases_handle:
  assumes "\<not> PSUTIL_TESTING os"
    and "psutil_get_cmdline_data os rd NULL pid s = Some (r, s')"
  shows "events s' = events s
       \<or> (\<exists>h. h \<noteq> NULL \<and> events s' = events s @ [Opened h, Closed h])"
proof (cases "GetProcAddress_NtQueryInformationProcess rd \<and> calloc_ok rd 4096")
  case False
  with assms show ?thesis
    by (auto simp: psutil_get_cmdline_data_def cmdline_error_def PyErr_Set_def
        split: if_splits)
next
  case g: True
  obtain h s1 where hp:
    "psutil_handle_from_pid os pid PROCESS_QUERY_LIMITED_INFORMATION s = Some (h, s1)"
    using assms g
    by (cases "psutil_handle_from_pid os pid PROCESS_QUERY_LIMITED_INFORMATION s")
       (auto simp: psutil_get_cmdline_data_def)
  note bal = handle_from_pid_normal [OF assms(1) hp]
  show ?thesis
  proof (cases "h = NULL")
    case True
    with assms g hp have "s' = s1"
      by (simp add: psutil_get_cmdline_data_def cmdline_error_def)
    with bal True show ?thesis by auto
  next
    case h: False
    with bal have e1: "events s1 = events s @ [Opened h]" by simp
    from assms g hp h have "events s' = events s1 @ [Closed h]"
      by (auto simp: psutil_get_cmdline_data_def cmdline_error_def CloseHandle_def PyErr_Set_def
          split: if_splits option.splits)
    with e1 h show ?thesis by auto
  qed
qed

end
